theory Spec2Isabelle
  imports Complex_Main
begin

section \<open>Numbers of the program\<close>

text \<open>
  \<^verbatim>\<open>csat_calculator.py\<close> is a straight-line script. Its integers are the values of
  five \<^verbatim>\<open>number_input\<close> widgets and their pandas sums (\<^verbatim>\<open>int64\<close>); they are
  modelled as \<^typ>\<open>int\<close> (a widget value stays below \<open>2 ^ 53\<close>, so no sum of the script
  wraps). Every other number is a numpy \<^verbatim>\<open>float64\<close>. A \<^verbatim>\<open>float64\<close> is modelled as an
  exact real, one of the two infinities, or NaN: rounding is left out, the special values
  are kept, because numpy does not raise on a division by zero or on the square root of
  a negative number, it returns \<^verbatim>\<open>inf\<close> or \<^verbatim>\<open>nan\<close> (with a warning) and goes on.
  The sign of a zero is left out as well: every divisor of the script is an integer or the
  square root of one, so no zero divisor is negative.
\<close>

datatype npfloat = Fin real | PInf | NInf | NaN

definition np_of_int :: "int \<Rightarrow> npfloat" where
  "np_of_int n = Fin (real_of_int n)"

fun is_nan :: "npfloat \<Rightarrow> bool" where
  "is_nan NaN = True"
| "is_nan _ = False"

text \<open>The sign of a value that is not NaN, and the infinity of a sign (NaN for sign 0).\<close>

fun np_sign :: "npfloat \<Rightarrow> real" where
  "np_sign (Fin x) = sgn x"
| "np_sign PInf = 1"
| "np_sign NInf = - 1"
| "np_sign NaN = 0"

definition inf_of_sign :: "real \<Rightarrow> npfloat" where
  "inf_of_sign s = (if s = 0 then NaN else if 0 < s then PInf else NInf)"

fun np_neg :: "npfloat \<Rightarrow> npfloat" where
  "np_neg (Fin x) = Fin (- x)"
| "np_neg PInf = NInf"
| "np_neg NInf = PInf"
| "np_neg NaN = NaN"

fun np_add :: "npfloat \<Rightarrow> npfloat \<Rightarrow> npfloat" where
  "np_add (Fin x) (Fin y) = Fin (x + y)"
| "np_add NaN _ = NaN"
| "np_add _ NaN = NaN"
| "np_add PInf NInf = NaN"
| "np_add NInf PInf = NaN"
| "np_add PInf _ = PInf"
| "np_add _ PInf = PInf"
| "np_add NInf _ = NInf"
| "np_add _ NInf = NInf"

definition np_sub :: "npfloat \<Rightarrow> npfloat \<Rightarrow> npfloat" where
  "np_sub a b = np_add a (np_neg b)"

text \<open>A product with an infinity is the infinity of the product's sign; \<open>0 * inf\<close> is NaN.\<close>

fun np_mul :: "npfloat \<Rightarrow> npfloat \<Rightarrow> npfloat" where
  "np_mul (Fin x) (Fin y) = Fin (x * y)"
| "np_mul NaN _ = NaN"
| "np_mul _ NaN = NaN"
| "np_mul a b = inf_of_sign (np_sign a * np_sign b)"

text \<open>
  numpy's true division: \<open>0 / 0\<close> is NaN, \<open>x / 0\<close> is the infinity of the sign of \<open>x\<close>,
  a finite number over an infinity is 0, an infinity over an infinity is NaN.
\<close>

fun np_div :: "npfloat \<Rightarrow> npfloat \<Rightarrow> npfloat" where
  "np_div (Fin x) (Fin y) = (if y = 0 then inf_of_sign (sgn x) else Fin (x / y))"
| "np_div NaN _ = NaN"
| "np_div _ NaN = NaN"
| "np_div (Fin x) _ = Fin 0"
| "np_div a (Fin y) = inf_of_sign (np_sign a * (if y < 0 then - 1 else 1))"
| "np_div _ _ = NaN"

text \<open>\<^verbatim>\<open>np.sqrt\<close>: NaN below zero.\<close>

fun np_sqrt :: "npfloat \<Rightarrow> npfloat" where
  "np_sqrt (Fin x) = (if x < 0 then NaN else Fin (sqrt x))"
| "np_sqrt PInf = PInf"
| "np_sqrt NInf = NaN"
| "np_sqrt NaN = NaN"

text \<open>The comparisons of IEEE 754: every comparison with NaN is false.\<close>

fun np_less :: "npfloat \<Rightarrow> npfloat \<Rightarrow> bool" where
  "np_less (Fin x) (Fin y) = (x < y)"
| "np_less NaN _ = False"
| "np_less _ NaN = False"
| "np_less _ NInf = False"
| "np_less PInf _ = False"
| "np_less _ _ = True"

fun np_le :: "npfloat \<Rightarrow> npfloat \<Rightarrow> bool" where
  "np_le (Fin x) (Fin y) = (x \<le> y)"
| "np_le NaN _ = False"
| "np_le _ NaN = False"
| "np_le NInf _ = True"
| "np_le _ PInf = True"
| "np_le _ _ = False"

text \<open>
  Python's builtin \<^verbatim>\<open>max(a, b)\<close> keeps \<open>a\<close> unless \<open>b > a\<close>; with \<open>a\<close> NaN the test is
  false and the result is NaN.
\<close>

definition py_max :: "npfloat \<Rightarrow> npfloat \<Rightarrow> npfloat" where
  "py_max a b = (if np_less a b then b else a)"

text \<open>
  \<^verbatim>\<open>Series.sum()\<close> of a float column: pandas skips the NaN entries (\<^verbatim>\<open>skipna=True\<close>
  is the default) and adds up the rest, from 0.
\<close>

definition pd_sum :: "npfloat list \<Rightarrow> npfloat" where
  "pd_sum xs = foldr np_add (filter (\<lambda>x. \<not> is_nan x) xs) (Fin 0)"

section \<open>The survey table and Part 1: score and percentage\<close>

definition n_level :: nat where
  "n_level = 5"

text \<open>
  \<^verbatim>\<open>res_list\<close> holds the five widget values, \<^verbatim>\<open>df_survey\<close> pairs them with the
  ratings \<^verbatim>\<open>range(1, 6)\<close>: a row is (rating, count).
\<close>

definition df_survey :: "int list \<Rightarrow> (int \<times> int) list" where
  "df_survey res_list = zip [1..5] res_list"

text \<open>
  What the widgets guarantee of \<^verbatim>\<open>res_list\<close>: \<^verbatim>\<open>n_level\<close> entries, each at least
  \<^verbatim>\<open>min_value=0\<close>.
\<close>

definition valid_counts :: "int list \<Rightarrow> bool" where
  "valid_counts res_list = (length res_list = n_level \<and> list_all (\<lambda>c. 0 \<le> c) res_list)"

definition survey_count :: "int list \<Rightarrow> int" where
  "survey_count res_list = sum_list (map snd (df_survey res_list))"

definition csat_score :: "int list \<Rightarrow> npfloat" where
  "csat_score res_list =
     np_div (np_of_int (sum_list (map (\<lambda>(rating, count). rating * count) (df_survey res_list))))
            (np_of_int (sum_list (map snd (df_survey res_list))))"

definition csat_percent :: "int list \<Rightarrow> npfloat" where
  "csat_percent res_list =
     np_div (np_of_int (sum_list (map snd (filter (\<lambda>(rating, count). rating \<ge> 4) (df_survey res_list)))))
            (np_of_int (sum_list (map snd (df_survey res_list))))"

section \<open>Part 2: standard errors and the t interval\<close>

definition degrees_freedom :: "int list \<Rightarrow> int" where
  "degrees_freedom res_list = survey_count res_list - 1"

text \<open>
  \<^verbatim>\<open>df_survey_1\<close> adds the columns \<^verbatim>\<open>diff = rating - csat_score\<close> and
  \<^verbatim>\<open>diff2 = diff ** 2 * count\<close>; only \<^verbatim>\<open>diff2\<close> is read afterwards.
\<close>

definition diff_col :: "int list \<Rightarrow> npfloat list" where
  "diff_col res_list =
     map (\<lambda>(rating, count). np_sub (np_of_int rating) (csat_score res_list)) (df_survey res_list)"

definition diff2_col :: "int list \<Rightarrow> npfloat list" where
  "diff2_col res_list =
     map (\<lambda>(d, (rating, count)). np_mul (np_mul d d) (np_of_int count))
         (zip (diff_col res_list) (df_survey res_list))"

definition std_sample :: "int list \<Rightarrow> npfloat" where
  "std_sample res_list =
     np_sqrt (np_div (pd_sum (diff2_col res_list)) (np_of_int (degrees_freedom res_list)))"

definition std_csat_score :: "int list \<Rightarrow> npfloat" where
  "std_csat_score res_list =
     np_div (std_sample res_list) (np_sqrt (np_of_int (survey_count res_list)))"

definition std_csat_percent :: "int list \<Rightarrow> npfloat" where
  "std_csat_percent res_list =
     np_sqrt (np_div (np_mul (csat_percent res_list) (np_sub (Fin 1) (csat_percent res_list)))
                     (np_of_int (survey_count res_list)))"

text \<open>
  \<^verbatim>\<open>stats.t.interval(conf, df, loc, scale)\<close> is scipy's, not the script's. The quantile
  routine itself (\<^verbatim>\<open>t._ppf\<close>, the inverse of Student's distribution function in floating
  point) is a parameter \<open>tq\<close> of the model: \<open>tq q df\<close> is what the library returns for
  the probability \<open>q\<close> at \<open>df\<close> degrees of freedom. Around it the library's generic code is
  modelled as the library has it: \<^verbatim>\<open>interval\<close> raises \<^verbatim>\<open>ValueError\<close> for a confidence
  outside \<open>[0, 1]\<close> and asks \<^verbatim>\<open>ppf\<close> for the probabilities \<open>(1 - conf) / 2\<close> and
  \<open>(1 + conf) / 2\<close>; \<^verbatim>\<open>ppf\<close> returns NaN unless \<open>df > 0\<close>, \<open>scale > 0\<close> and \<open>loc\<close> is not
  NaN, then \<open>tq q df * scale + loc\<close> for \<open>0 < q < 1\<close> and the end of the support for
  \<open>q = 0\<close> and \<open>q = 1\<close>.
\<close>

datatype error = ValueError

definition t_ppf :: "(real \<Rightarrow> int \<Rightarrow> real) \<Rightarrow> real \<Rightarrow> int \<Rightarrow> npfloat \<Rightarrow> npfloat \<Rightarrow> npfloat" where
  "t_ppf tq q df loc scale =
     (if 0 < df \<and> np_less (Fin 0) scale \<and> \<not> is_nan loc then
        (if 0 < q \<and> q < 1 then np_add (np_mul (Fin (tq q df)) scale) loc
         else if q = 0 then np_add (np_mul NInf scale) loc
         else if q = 1 then np_add (np_mul PInf scale) loc
         else NaN)
      else NaN)"

definition t_interval ::
  "(real \<Rightarrow> int \<Rightarrow> real) \<Rightarrow> real \<Rightarrow> int \<Rightarrow> npfloat \<Rightarrow> npfloat \<Rightarrow> error + (npfloat \<times> npfloat)" where
  "t_interval tq conf df loc scale =
     (if conf > 1 \<or> conf < 0 then Inl ValueError
      else Inr (t_ppf tq ((1 - conf) / 2) df loc scale, t_ppf tq ((1 + conf) / 2) df loc scale))"

section \<open>Part 3: finite population correction\<close>

text \<open>
  \<^verbatim>\<open>survey_total\<close> is one more widget value (at least 0, preset to \<^verbatim>\<open>survey_count\<close>).
\<close>

definition fpc :: "int \<Rightarrow> int list \<Rightarrow> npfloat" where
  "fpc survey_total res_list =
     np_sqrt (np_div (np_of_int (survey_total - survey_count res_list))
                     (np_of_int (survey_total - 1)))"

definition default_zero :: npfloat where
  "default_zero = Fin (1 / 10 ^ 8)"

definition std_csat_score_fpc :: "int \<Rightarrow> int list \<Rightarrow> npfloat" where
  "std_csat_score_fpc survey_total res_list =
     np_mul (std_csat_score res_list) (py_max (fpc survey_total res_list) default_zero)"

definition std_csat_percent_fpc :: "int \<Rightarrow> int list \<Rightarrow> npfloat" where
  "std_csat_percent_fpc survey_total res_list =
     np_mul (std_csat_percent res_list) (py_max (fpc survey_total res_list) default_zero)"

section \<open>The whole script\<close>

text \<open>
  The four calls of \<^verbatim>\<open>stats.t.interval\<close>: (\<^verbatim>\<open>csat_score_low\<close>, \<^verbatim>\<open>csat_score_high\<close>),
  (\<^verbatim>\<open>csat_percent_low\<close>, \<^verbatim>\<open>csat_percent_high\<close>) and the two pairs with the suffix
  \<^verbatim>\<open>_fpc\<close>.
\<close>

definition csat_score_ci ::
  "(real \<Rightarrow> int \<Rightarrow> real) \<Rightarrow> real \<Rightarrow> int list \<Rightarrow> error + (npfloat \<times> npfloat)" where
  "csat_score_ci tq conf_level res_list =
     t_interval tq conf_level (degrees_freedom res_list)
       (csat_score res_list) (std_csat_score res_list)"

definition csat_percent_ci ::
  "(real \<Rightarrow> int \<Rightarrow> real) \<Rightarrow> real \<Rightarrow> int list \<Rightarrow> error + (npfloat \<times> npfloat)" where
  "csat_percent_ci tq conf_level res_list =
     t_interval tq conf_level (degrees_freedom res_list)
       (csat_percent res_list) (std_csat_percent res_list)"

definition csat_score_ci_fpc ::
  "(real \<Rightarrow> int \<Rightarrow> real) \<Rightarrow> real \<Rightarrow> int \<Rightarrow> int list \<Rightarrow> error + (npfloat \<times> npfloat)" where
  "csat_score_ci_fpc tq conf_level survey_total res_list =
     t_interval tq conf_level (degrees_freedom res_list)
       (csat_score res_list) (std_csat_score_fpc survey_total res_list)"

definition csat_percent_ci_fpc ::
  "(real \<Rightarrow> int \<Rightarrow> real) \<Rightarrow> real \<Rightarrow> int \<Rightarrow> int list \<Rightarrow> error + (npfloat \<times> npfloat)" where
  "csat_percent_ci_fpc tq conf_level survey_total res_list =
     t_interval tq conf_level (degrees_freedom res_list)
       (csat_percent res_list) (std_csat_percent_fpc survey_total res_list)"

record csat_output =
  out_survey_count :: int
  out_csat_score :: npfloat
  out_csat_percent :: npfloat
  out_score_ci :: "npfloat \<times> npfloat"
  out_percent_ci :: "npfloat \<times> npfloat"
  out_score_ci_fpc :: "npfloat \<times> npfloat"
  out_percent_ci_fpc :: "npfloat \<times> npfloat"

text \<open>
  A run of the script, from the widget values to what it writes: the four intervals in
  the script's order; the first \<^verbatim>\<open>ValueError\<close> ends the run.
\<close>

definition csat_calculator ::
  "(real \<Rightarrow> int \<Rightarrow> real) \<Rightarrow> int list \<Rightarrow> real \<Rightarrow> int \<Rightarrow> error + csat_output" where
  "csat_calculator tq res_list conf_level survey_total =
     (case csat_score_ci tq conf_level res_list of
        Inl e \<Rightarrow> Inl e
      | Inr sci \<Rightarrow>
     (case csat_percent_ci tq conf_level res_list of
        Inl e \<Rightarrow> Inl e
      | Inr pci \<Rightarrow>
     (case csat_score_ci_fpc tq conf_level survey_total res_list of
        Inl e \<Rightarrow> Inl e
      | Inr scif \<Rightarrow>
     (case csat_percent_ci_fpc tq conf_level survey_total res_list of
        Inl e \<Rightarrow> Inl e
      | Inr pcif \<Rightarrow>
          Inr \<lparr>out_survey_count = survey_count res_list,
               out_csat_score = csat_score res_list,
               out_csat_percent = csat_percent res_list,
               out_score_ci = sci,
               out_percent_ci = pci,
               out_score_ci_fpc = scif,
               out_percent_ci_fpc = pcif\<rparr>))))"

section \<open>Notions of the properties\<close>

text \<open>The width of an interval, as a float: NaN when a bound is.\<close>

definition width :: "npfloat \<times> npfloat \<Rightarrow> npfloat" where
  "width ci = np_sub (snd ci) (fst ci)"

text \<open>
  What the properties below ask of the library's quantile at \<open>df\<close> degrees of freedom:
  that it is odd about the probability 1/2, and that it grows with the probability.
  Student's quantile function has both properties.
\<close>

definition quantile_symmetric :: "(real \<Rightarrow> int \<Rightarrow> real) \<Rightarrow> int \<Rightarrow> bool" where
  "quantile_symmetric tq df = (\<forall>q. 0 < q \<and> q < 1 \<longrightarrow> tq (1 - q) df = - tq q df)"

definition quantile_increasing :: "(real \<Rightarrow> int \<Rightarrow> real) \<Rightarrow> int \<Rightarrow> bool" where
  "quantile_increasing tq df = (\<forall>q q'. 0 < q \<and> q < q' \<and> q' < 1 \<longrightarrow> tq q df < tq q' df)"

text \<open>
  Student's quantile function in closed form at one degree of freedom (the Cauchy
  distribution) and at two: the instances of \<open>tq\<close> for a survey of two respondents and
  of three.
\<close>

definition student_t1_ppf :: "real \<Rightarrow> int \<Rightarrow> real" where
  "student_t1_ppf q df = tan (pi * (q - 1 / 2))"

definition student_t2_ppf :: "real \<Rightarrow> int \<Rightarrow> real" where
  "student_t2_ppf q df = (2 * q - 1) / sqrt (2 * q * (1 - q))"

text \<open>The sum of the squared deviations of the ratings from \<open>s\<close>, level by level.\<close>

definition sq_dev :: "real \<Rightarrow> int list \<Rightarrow> real" where
  "sq_dev s res = (\<Sum>i<n_level. real_of_int (res ! i) * (real (i + 1) - s)\<^sup>2)"

text \<open>
  Modelled from the spec: the distribution function of Student's t distribution, whose
  inverse (the spec's "inverse-CDF (quantile function) of the t distribution") gives
  \<open>t_crit\<close>, here at 9 degrees of freedom; the routine of the library that the script
  calls for it is not part of the repository. With \<open>\<theta> = arctan (t / 3)\<close> it is
  \<open>1/2 + (\<theta> + sin \<theta> cos \<theta> (1 + 2/3 cos\<^sup>2 \<theta> + 8/15 cos\<^sup>4 \<theta> + 16/35 cos\<^sup>6 \<theta>)) / \<pi>\<close>,
  written below in \<open>t\<close>. Its derivative is the density
  \<open>128 / (105 \<pi>) (1 + t\<^sup>2 / 9)\<^sup>-\<^sup>5\<close>, it is 1/2 at 0 and tends to 1 (lemmas below).
\<close>

definition student_t9_cdf :: "real \<Rightarrow> real" where
  "student_t9_cdf t =
     1 / 2 + (arctan (t / 3)
              + 3 * t * (1 / (9 + t\<^sup>2) + 6 / (9 + t\<^sup>2) ^ 2 + (216 / 5) / (9 + t\<^sup>2) ^ 3
                         + (11664 / 35) / (9 + t\<^sup>2) ^ 4)) / pi"


section \<open>The table row by row\<close>

lemma valid_counts_list:
  assumes "valid_counts res"
  obtains a b c d e where "res = [a, b, c, d, e]"
    "0 \<le> a" "0 \<le> b" "0 \<le> c" "0 \<le> d" "0 \<le> e"
  using assms
  by (auto simp: valid_counts_def n_level_def eval_nat_numeral length_Suc_conv)

lemma df_survey_5: "df_survey [a, b, c, d, e] = [(1, a), (2, b), (3, c), (4, d), (5, e)]"
  by (simp add: df_survey_def upto.simps)

lemma survey_count_5: "survey_count [a, b, c, d, e] = a + b + c + d + e"
  by (simp add: survey_count_def df_survey_5)

lemma csat_score_5:
  "a + b + c + d + e \<noteq> 0 \<Longrightarrow>
   csat_score [a, b, c, d, e] =
     Fin (real_of_int (a + 2 * b + 3 * c + 4 * d + 5 * e) / real_of_int (a + b + c + d + e))"
  by (simp add: csat_score_def df_survey_5 np_of_int_def add.assoc)

lemma csat_percent_5:
  "a + b + c + d + e \<noteq> 0 \<Longrightarrow>
   csat_percent [a, b, c, d, e] = Fin (real_of_int (d + e) / real_of_int (a + b + c + d + e))"
  by (simp add: csat_percent_def df_survey_5 np_of_int_def add.assoc)

lemma sum_5: "(\<Sum>i<5. f i) = f 0 + f 1 + f 2 + f 3 + f (4::nat)"
  by (simp add: eval_nat_numeral)

section \<open>Score and percentage\<close>

text \<open>
  C1. For five non-negative counts with at least one respondent, the score is the
  count-weighted sum of the levels 1..5 over the number of respondents and lies in
  [1, 5]; the percentage is the share of the levels 4 and 5 and lies in [0, 1]. For the
  counts [1, 1, 2, 3, 2] there are 9 respondents, the score is 31/9 and the percentage
  5/9.
\<close>

theorem score_percent_formulas:
  assumes "valid_counts res" and "1 \<le> survey_count res"
  shows "survey_count res = (\<Sum>i<n_level. res ! i)
       \<and> csat_score res =
           Fin (real_of_int (\<Sum>i<n_level. (int i + 1) * res ! i) / real_of_int (survey_count res))
       \<and> (\<exists>s. csat_score res = Fin s \<and> 1 \<le> s \<and> s \<le> 5)
       \<and> csat_percent res = Fin (real_of_int (res ! 3 + res ! 4) / real_of_int (survey_count res))
       \<and> (\<exists>p. csat_percent res = Fin p \<and> 0 \<le> p \<and> p \<le> 1)
       \<and> survey_count [1, 1, 2, 3, 2] = 9
       \<and> csat_score [1, 1, 2, 3, 2] = Fin (31 / 9)
       \<and> csat_percent [1, 1, 2, 3, 2] = Fin (5 / 9)"
proof -
  from assms(1) obtain a b c d e where
    res: "res = [a, b, c, d, e]" and nn: "0 \<le> a" "0 \<le> b" "0 \<le> c" "0 \<le> d" "0 \<le> e"
    by (rule valid_counts_list)
  from assms(2) have N: "1 \<le> a + b + c + d + e"
    by (simp add: res survey_count_5)
  then have N0: "a + b + c + d + e \<noteq> 0" by simp
  have c1: "survey_count res = (\<Sum>i<n_level. res ! i)"
    by (simp add: res survey_count_5 n_level_def sum_5)
  have c2: "csat_score res =
           Fin (real_of_int (\<Sum>i<n_level. (int i + 1) * res ! i) / real_of_int (survey_count res))"
    using N0 by (simp add: res csat_score_5 survey_count_5 n_level_def sum_5 algebra_simps)
  have lo: "real_of_int (a + b + c + d + e) \<le> real_of_int (a + 2 * b + 3 * c + 4 * d + 5 * e)"
    using nn by linarith
  have hi: "real_of_int (a + 2 * b + 3 * c + 4 * d + 5 * e) \<le> 5 * real_of_int (a + b + c + d + e)"
    using nn by simp
  have pos: "0 < real_of_int (a + b + c + d + e)" using N by linarith
  have c3: "\<exists>s. csat_score res = Fin s \<and> 1 \<le> s \<and> s \<le> 5"
    unfolding res csat_score_5 [OF N0] using lo hi pos
    by (simp add: le_divide_eq divide_le_eq)
  have c4: "csat_percent res = Fin (real_of_int (res ! 3 + res ! 4) / real_of_int (survey_count res))"
    using N0 by (simp add: res csat_percent_5 survey_count_5)
  have plo: "0 \<le> real_of_int (d + e)" using nn by simp
  have phi: "real_of_int (d + e) \<le> real_of_int (a + b + c + d + e)" using nn by simp
  have c5: "\<exists>p. csat_percent res = Fin p \<and> 0 \<le> p \<and> p \<le> 1"
    unfolding res csat_percent_5 [OF N0] using plo phi pos
    by (simp add: le_divide_eq divide_le_eq)
  have c6: "survey_count [1, 1, 2, 3, 2] = 9" by (simp add: survey_count_5)
  have c7: "csat_score [1, 1, 2, 3, 2] = Fin (31 / 9)" by (simp add: csat_score_5)
  have c8: "csat_percent [1, 1, 2, 3, 2] = Fin (5 / 9)" by (simp add: csat_percent_5)
  from c1 c2 c3 c4 c5 c6 c7 c8 show ?thesis by blast
qed

text \<open>The script's preset counts [2, 1, 2, 3, 2]: 10 respondents, score 3.2, half satisfied.\<close>

theorem score_percent_formulas_witness:
  "valid_counts [2, 1, 2, 3, 2] \<and> 1 \<le> survey_count [2, 1, 2, 3, 2]
   \<and> survey_count [2, 1, 2, 3, 2] = 10
   \<and> csat_score [2, 1, 2, 3, 2] = Fin (16 / 5)
   \<and> csat_percent [2, 1, 2, 3, 2] = Fin (1 / 2)"
proof -
  have v: "valid_counts [2, 1, 2, 3, 2]" by (simp add: valid_counts_def n_level_def)
  have n: "1 \<le> survey_count [2, 1, 2, 3, 2]" by (simp add: survey_count_5)
  show ?thesis
    using v n score_percent_formulas [OF v n]
    by (simp add: n_level_def sum_5 survey_count_5)
qed

section \<open>Standard errors\<close>

lemma diff2_col_5:
  assumes "csat_score [a, b, c, d, e] = Fin s"
  shows "diff2_col [a, b, c, d, e] =
    [Fin ((1 - s) * (1 - s) * real_of_int a), Fin ((2 - s) * (2 - s) * real_of_int b),
     Fin ((3 - s) * (3 - s) * real_of_int c), Fin ((4 - s) * (4 - s) * real_of_int d),
     Fin ((5 - s) * (5 - s) * real_of_int e)]"
  by (simp add: diff2_col_def diff_col_def assms df_survey_5 np_of_int_def np_sub_def)

lemma sq_dev_5:
  "sq_dev s [a, b, c, d, e] =
     (1 - s) * (1 - s) * real_of_int a + (2 - s) * (2 - s) * real_of_int b
     + (3 - s) * (3 - s) * real_of_int c + (4 - s) * (4 - s) * real_of_int d
     + (5 - s) * (5 - s) * real_of_int e"
  by (simp add: sq_dev_def n_level_def sum_5 power2_eq_square mult.commute)

lemma sq_dev_nonneg:
  assumes "0 \<le> a" "0 \<le> b" "0 \<le> c" "0 \<le> d" "0 \<le> e"
  shows "0 \<le> sq_dev s [a, b, c, d, e]"
proof -
  have sq: "0 \<le> (k - s) * (k - s) * real_of_int x" if "0 \<le> x" for k x
    using that by (intro mult_nonneg_nonneg zero_le_square) simp
  show ?thesis
    unfolding sq_dev_5 by (intro add_nonneg_nonneg sq assms)
qed

lemma pd_sum_diff2_5:
  assumes "csat_score [a, b, c, d, e] = Fin s"
  shows "pd_sum (diff2_col [a, b, c, d, e]) = Fin (sq_dev s [a, b, c, d, e])"
  by (simp add: diff2_col_5 [OF assms] pd_sum_def sq_dev_5 add.assoc)

lemma std_sample_5:
  assumes "csat_score [a, b, c, d, e] = Fin s"
    and "0 \<le> a" "0 \<le> b" "0 \<le> c" "0 \<le> d" "0 \<le> e"
    and "2 \<le> a + b + c + d + e"
  shows "std_sample [a, b, c, d, e] =
     Fin (sqrt (sq_dev s [a, b, c, d, e] / real_of_int (a + b + c + d + e - 1)))"
proof -
  have pos: "0 < real_of_int (a + b + c + d + e - 1)" using assms(7) by linarith
  have nn: "0 \<le> sq_dev s [a, b, c, d, e] / real_of_int (a + b + c + d + e - 1)"
    using sq_dev_nonneg [OF assms(2-6)] pos by (intro divide_nonneg_pos)
  have ne: "real_of_int (a + b + c + d + e - 1) \<noteq> 0" using pos by simp
  have "np_div (pd_sum (diff2_col [a, b, c, d, e])) (np_of_int (degrees_freedom [a, b, c, d, e]))
        = Fin (sq_dev s [a, b, c, d, e] / real_of_int (a + b + c + d + e - 1))"
    unfolding pd_sum_diff2_5 [OF assms(1)] degrees_freedom_def survey_count_5 np_of_int_def
    using ne by (simp del: of_int_diff of_int_add)
  then show ?thesis
    unfolding std_sample_def using nn by (simp add: not_less del: of_int_diff of_int_add)
qed

lemma std_csat_score_5:
  assumes "std_sample [a, b, c, d, e] = Fin sd" and "1 \<le> a + b + c + d + e"
  shows "std_csat_score [a, b, c, d, e] = Fin (sd / sqrt (real_of_int (a + b + c + d + e)))"
proof -
  have pos: "0 < real_of_int (a + b + c + d + e)" using assms(2) by linarith
  then have "sqrt (real_of_int (a + b + c + d + e)) \<noteq> 0" by simp
  moreover have "\<not> real_of_int (a + b + c + d + e) < 0" using pos by simp
  ultimately show ?thesis
    unfolding std_csat_score_def assms(1) survey_count_5 np_of_int_def
    by (simp del: of_int_add)
qed

lemma std_csat_percent_5:
  assumes "csat_percent [a, b, c, d, e] = Fin p" and "0 \<le> p" and "p \<le> 1"
    and "1 \<le> a + b + c + d + e"
  shows "std_csat_percent [a, b, c, d, e] =
           Fin (sqrt (p * (1 - p) / real_of_int (a + b + c + d + e)))"
proof -
  have pos: "0 < real_of_int (a + b + c + d + e)" using assms(4) by linarith
  have "0 \<le> p * (1 - p)" using assms(2,3) by simp
  then have nn: "\<not> p * (1 - p) / real_of_int (a + b + c + d + e) < 0"
    using pos by (simp add: not_less del: of_int_add)
  have ne: "real_of_int (a + b + c + d + e) \<noteq> 0" using pos by simp
  show ?thesis
    unfolding std_csat_percent_def assms(1) survey_count_5 np_of_int_def np_sub_def
    using nn ne by (simp del: of_int_add)
qed

lemma csat_percent_range_5:
  assumes "csat_percent [a, b, c, d, e] = Fin p"
    and "0 \<le> a" "0 \<le> b" "0 \<le> c" "0 \<le> d" "0 \<le> e"
    and "1 \<le> a + b + c + d + e"
  shows "0 \<le> p \<and> p \<le> 1"
proof -
  have N0: "a + b + c + d + e \<noteq> 0" using assms(7) by simp
  have pos: "0 < real_of_int (a + b + c + d + e)" using assms(7) by linarith
  have plo: "0 \<le> real_of_int (d + e)" using assms(5,6) by simp
  have phi: "real_of_int (d + e) \<le> real_of_int (a + b + c + d + e)" using assms(2-4) by simp
  have "p = real_of_int (d + e) / real_of_int (a + b + c + d + e)"
    using assms(1) unfolding csat_percent_5 [OF N0] by simp
  then show ?thesis using plo phi pos by (simp add: le_divide_eq divide_le_eq)
qed

text \<open>
  C2. With at least two respondents, a score \<open>s\<close> and a percentage \<open>p\<close> as Part 1
  computes them, the sample standard deviation is the square root of the count-weighted
  squared deviations of the levels from \<open>s\<close> over \<open>N - 1\<close>, the standard error of the
  score is that deviation over the square root of \<open>N\<close>, and the standard error of the
  percentage is the square root of \<open>p (1 - p) / N\<close>.
\<close>

theorem standard_error_formulas:
  assumes "valid_counts res" and "2 \<le> survey_count res"
    and "csat_score res = Fin s" and "csat_percent res = Fin p"
  shows "std_sample res =
           Fin (sqrt ((\<Sum>i<n_level. real_of_int (res ! i) * (real (i + 1) - s)\<^sup>2)
                      / real_of_int (survey_count res - 1)))
       \<and> std_csat_score res =
           Fin (sqrt ((\<Sum>i<n_level. real_of_int (res ! i) * (real (i + 1) - s)\<^sup>2)
                      / real_of_int (survey_count res - 1))
                / sqrt (real_of_int (survey_count res)))
       \<and> std_csat_percent res = Fin (sqrt (p * (1 - p) / real_of_int (survey_count res)))"
proof -
  from assms(1) obtain a b c d e where
    res: "res = [a, b, c, d, e]" and nn: "0 \<le> a" "0 \<le> b" "0 \<le> c" "0 \<le> d" "0 \<le> e"
    by (rule valid_counts_list)
  have N2: "2 \<le> a + b + c + d + e" using assms(2) by (simp add: res survey_count_5)
  then have N1: "1 \<le> a + b + c + d + e" by simp
  have sc: "csat_score [a, b, c, d, e] = Fin s" using assms(3) by (simp add: res)
  have pc: "csat_percent [a, b, c, d, e] = Fin p" using assms(4) by (simp add: res)
  have sd: "std_sample [a, b, c, d, e] =
      Fin (sqrt (sq_dev s [a, b, c, d, e] / real_of_int (a + b + c + d + e - 1)))"
    by (rule std_sample_5 [OF sc nn N2])
  have se: "std_csat_score [a, b, c, d, e] =
      Fin (sqrt (sq_dev s [a, b, c, d, e] / real_of_int (a + b + c + d + e - 1))
           / sqrt (real_of_int (a + b + c + d + e)))"
    by (rule std_csat_score_5 [OF sd N1])
  from csat_percent_range_5 [OF pc nn N1] have p01: "0 \<le> p" "p \<le> 1" by simp_all
  have sp: "std_csat_percent [a, b, c, d, e] =
      Fin (sqrt (p * (1 - p) / real_of_int (a + b + c + d + e)))"
    by (rule std_csat_percent_5 [OF pc p01 N1])
  show ?thesis
    unfolding sq_dev_def [symmetric] res survey_count_5 using sd se sp by blast
qed

text \<open>The preset counts: \<open>N = 10\<close>, variance 98/45.\<close>

theorem standard_error_formulas_witness:
  "valid_counts [2, 1, 2, 3, 2] \<and> 2 \<le> survey_count [2, 1, 2, 3, 2]
   \<and> csat_score [2, 1, 2, 3, 2] = Fin (16 / 5) \<and> csat_percent [2, 1, 2, 3, 2] = Fin (1 / 2)
   \<and> std_sample [2, 1, 2, 3, 2] = Fin (sqrt (98 / 45))
   \<and> std_csat_score [2, 1, 2, 3, 2] = Fin (sqrt (98 / 45) / sqrt 10)
   \<and> std_csat_percent [2, 1, 2, 3, 2] = Fin (sqrt (1 / 40))"
proof -
  have v: "valid_counts [2, 1, 2, 3, 2]" by (simp add: valid_counts_def n_level_def)
  have n: "2 \<le> survey_count [2, 1, 2, 3, 2]" by (simp add: survey_count_5)
  have s: "csat_score [2, 1, 2, 3, 2] = Fin (16 / 5)" by (simp add: csat_score_5)
  have p: "csat_percent [2, 1, 2, 3, 2] = Fin (1 / 2)" by (simp add: csat_percent_5)
  have q: "(\<Sum>i<n_level. real_of_int ([2, 1, 2, 3, 2] ! i) * (real (i + 1) - 16 / 5)\<^sup>2) = 98 / 5"
    by (simp add: n_level_def sum_5 power2_eq_square)
  show ?thesis
    using v n s p standard_error_formulas [OF v n s p]
    unfolding q by (simp add: survey_count_5)
qed

section \<open>The interval of the library\<close>

lemma t_ppf_fin:
  assumes "0 < df" and "0 < se" and "0 < q" and "q < 1"
  shows "t_ppf tq q df (Fin m) (Fin se) = Fin (tq q df * se + m)"
  using assms by (simp add: t_ppf_def)

lemma t_ppf_df_nonpos: "df \<le> 0 \<Longrightarrow> t_ppf tq q df loc scale = NaN"
  by (simp add: t_ppf_def)

lemma t_ppf_scale_zero: "t_ppf tq q df loc (Fin 0) = NaN"
  by (simp add: t_ppf_def)

lemma t_ppf_scale_nan: "t_ppf tq q df loc NaN = NaN"
  by (simp add: t_ppf_def)

lemma t_interval_fin:
  assumes "0 < df" and "0 < se" and "0 < c" and "c < 1"
  shows "t_interval tq c df (Fin m) (Fin se) =
           Inr (Fin (tq ((1 - c) / 2) df * se + m), Fin (tq ((1 + c) / 2) df * se + m))"
proof -
  have "0 < (1 - c) / 2" "(1 - c) / 2 < 1" "0 < (1 + c) / 2" "(1 + c) / 2 < 1"
    using assms(3,4) by simp_all
  then show ?thesis
    using assms(3,4) by (simp add: t_interval_def t_ppf_fin [OF assms(1,2)])
qed

lemma t_interval_df_nonpos:
  assumes "df \<le> 0" and "0 \<le> c" and "c \<le> 1"
  shows "t_interval tq c df loc scale = Inr (NaN, NaN)"
  using assms by (simp add: t_interval_def t_ppf_df_nonpos)

lemma t_interval_scale_zero:
  assumes "0 \<le> c" and "c \<le> 1"
  shows "t_interval tq c df loc (Fin 0) = Inr (NaN, NaN)"
  using assms by (simp add: t_interval_def t_ppf_scale_zero)

lemma t_interval_scale_nan:
  assumes "0 \<le> c" and "c \<le> 1"
  shows "t_interval tq c df loc NaN = Inr (NaN, NaN)"
  using assms by (simp add: t_interval_def t_ppf_scale_nan)

lemma csat_calculator_Inr:
  assumes "csat_score_ci tq c res = Inr sci" and "csat_percent_ci tq c res = Inr pci"
    and "csat_score_ci_fpc tq c pop res = Inr scif"
    and "csat_percent_ci_fpc tq c pop res = Inr pcif"
  shows "csat_calculator tq res c pop =
     Inr \<lparr>out_survey_count = survey_count res, out_csat_score = csat_score res,
          out_csat_percent = csat_percent res, out_score_ci = sci, out_percent_ci = pci,
          out_score_ci_fpc = scif, out_percent_ci_fpc = pcif\<rparr>"
  by (simp add: csat_calculator_def assms)

section \<open>Fewer than two respondents\<close>

text \<open>
  C4, as the script has it. The script has no check of the number of respondents and no
  error of its own. With at most one respondent (and a confidence level the library
  accepts) the run ends without an error, and every bound of the four intervals is NaN:
  the degrees of freedom are not positive, and the library answers NaN.
\<close>

theorem too_few_respondents_nan:
  assumes "valid_counts res" and "survey_count res \<le> 1" and "0 \<le> c" and "c \<le> 1"
  shows "\<exists>r. csat_calculator tq res c pop = Inr r
           \<and> out_score_ci r = (NaN, NaN) \<and> out_percent_ci r = (NaN, NaN)
           \<and> out_score_ci_fpc r = (NaN, NaN) \<and> out_percent_ci_fpc r = (NaN, NaN)"
proof -
  have df: "degrees_freedom res \<le> 0" using assms(2) by (simp add: degrees_freedom_def)
  note nan = t_interval_df_nonpos [OF df assms(3,4)]
  have "csat_calculator tq res c pop =
     Inr \<lparr>out_survey_count = survey_count res, out_csat_score = csat_score res,
          out_csat_percent = csat_percent res, out_score_ci = (NaN, NaN),
          out_percent_ci = (NaN, NaN), out_score_ci_fpc = (NaN, NaN),
          out_percent_ci_fpc = (NaN, NaN)\<rparr>"
    by (rule csat_calculator_Inr)
       (simp_all add: csat_score_ci_def csat_percent_ci_def csat_score_ci_fpc_def
          csat_percent_ci_fpc_def nan)
  then show ?thesis by simp
qed

text \<open>No response at all.\<close>

theorem too_few_respondents_nan_witness:
  "valid_counts [0, 0, 0, 0, 0] \<and> survey_count [0, 0, 0, 0, 0] \<le> 1
   \<and> (\<exists>r. csat_calculator student_t1_ppf [0, 0, 0, 0, 0] (4 / 5) 0 = Inr r
           \<and> out_score_ci r = (NaN, NaN) \<and> out_percent_ci r = (NaN, NaN)
           \<and> out_score_ci_fpc r = (NaN, NaN) \<and> out_percent_ci_fpc r = (NaN, NaN))"
proof -
  have v: "valid_counts [0, 0, 0, 0, 0]" by (simp add: valid_counts_def n_level_def)
  have n: "survey_count [0, 0, 0, 0, 0] \<le> 1" by (simp add: survey_count_5)
  show ?thesis
    using v n too_few_respondents_nan [OF v n, of "4 / 5" student_t1_ppf 0] by simp
qed

text \<open>
  One response, of five stars: the run returns its output, with NaN bounds, where C4
  asks for an error in place of NaN.
\<close>

theorem one_respondent_counterexample:
  "csat_calculator student_t1_ppf [0, 0, 0, 0, 1] (19 / 20) 1 =
     Inr \<lparr>out_survey_count = 1, out_csat_score = Fin 5, out_csat_percent = Fin 1,
          out_score_ci = (NaN, NaN), out_percent_ci = (NaN, NaN),
          out_score_ci_fpc = (NaN, NaN), out_percent_ci_fpc = (NaN, NaN)\<rparr>"
proof -
  have df: "degrees_freedom [0, 0, 0, 0, 1] \<le> 0"
    by (simp add: degrees_freedom_def survey_count_5)
  have c: "(0::real) \<le> 19 / 20" "(19::real) / 20 \<le> 1" by simp_all
  note nan = t_interval_df_nonpos [OF df c]
  have "csat_calculator student_t1_ppf [0, 0, 0, 0, 1] (19 / 20) 1 =
     Inr \<lparr>out_survey_count = survey_count [0, 0, 0, 0, 1],
          out_csat_score = csat_score [0, 0, 0, 0, 1],
          out_csat_percent = csat_percent [0, 0, 0, 0, 1], out_score_ci = (NaN, NaN),
          out_percent_ci = (NaN, NaN), out_score_ci_fpc = (NaN, NaN),
          out_percent_ci_fpc = (NaN, NaN)\<rparr>"
    by (rule csat_calculator_Inr)
       (simp_all add: csat_score_ci_def csat_percent_ci_def csat_score_ci_fpc_def
          csat_percent_ci_fpc_def nan)
  then show ?thesis by (simp add: survey_count_5 csat_score_5 csat_percent_5)
qed

section \<open>A population smaller than the sample\<close>

lemma t_interval_Inr:
  assumes "0 \<le> c" and "c \<le> 1"
  shows "t_interval tq c df loc scale =
           Inr (t_ppf tq ((1 - c) / 2) df loc scale, t_ppf tq ((1 + c) / 2) df loc scale)"
  using assms by (simp add: t_interval_def)

lemma csat_calculator_no_error:
  assumes "0 \<le> c" and "c \<le> 1"
  shows "\<exists>sci pci scif pcif.
           csat_score_ci tq c res = Inr sci \<and> csat_percent_ci tq c res = Inr pci
         \<and> csat_score_ci_fpc tq c pop res = Inr scif
         \<and> csat_percent_ci_fpc tq c pop res = Inr pcif
         \<and> csat_calculator tq res c pop =
             Inr \<lparr>out_survey_count = survey_count res, out_csat_score = csat_score res,
                  out_csat_percent = csat_percent res, out_score_ci = sci,
                  out_percent_ci = pci, out_score_ci_fpc = scif, out_percent_ci_fpc = pcif\<rparr>"
  by (simp add: csat_calculator_def csat_score_ci_def csat_percent_ci_def
        csat_score_ci_fpc_def csat_percent_ci_fpc_def t_interval_Inr [OF assms])

lemma np_mul_NaN_right: "np_mul x NaN = NaN"
  by (cases x) simp_all

lemma fpc_small_population:
  assumes "1 \<le> pop" and "pop < survey_count res"
  shows "fpc pop res = NaN"
proof (cases "pop = 1")
  case True
  then have "real_of_int (pop - survey_count res) < 0" using assms(2) by simp
  then show ?thesis
    using True by (simp add: fpc_def np_of_int_def inf_of_sign_def del: of_int_diff)
next
  case False
  then have d: "0 < real_of_int (pop - 1)" using assms(1) by simp
  have n: "real_of_int (pop - survey_count res) < 0" using assms(2) by simp
  have "real_of_int (pop - survey_count res) / real_of_int (pop - 1) < 0"
    by (rule divide_neg_pos [OF n d])
  then show ?thesis
    using d by (simp add: fpc_def np_of_int_def del: of_int_diff)
qed

lemma fpc_zero_population:
  assumes "0 < survey_count res"
  shows "fpc 0 res = Fin (sqrt (real_of_int (survey_count res)))"
  using assms by (simp add: fpc_def np_of_int_def)

lemma fpc_nan_intervals:
  assumes "fpc pop res = NaN" and "0 \<le> c" and "c \<le> 1"
  shows "csat_score_ci_fpc tq c pop res = Inr (NaN, NaN)"
    and "csat_percent_ci_fpc tq c pop res = Inr (NaN, NaN)"
  by (simp_all add: csat_score_ci_fpc_def csat_percent_ci_fpc_def std_csat_score_fpc_def
        std_csat_percent_fpc_def assms(1) py_max_def np_mul_NaN_right
        t_interval_scale_nan [OF assms(2,3)])

text \<open>
  C5, as the script has it. The script does not compare \<^verbatim>\<open>survey_total\<close> with the
  number of respondents. With a total below the number of respondents (and a confidence
  level the library accepts) the run ends without an error. For a total of at least 1 the
  correction factor is the square root of a negative number or of minus infinity, that
  is NaN, which \<^verbatim>\<open>max\<close> keeps, so every bound of the two corrected intervals is NaN;
  for a total of 0 the factor is the square root of the number of respondents.
\<close>

theorem small_population_no_error:
  assumes "valid_counts res" and "0 \<le> pop" and "pop < survey_count res"
    and "0 \<le> c" and "c \<le> 1"
  shows "\<exists>r. csat_calculator tq res c pop = Inr r
           \<and> (if pop = 0 then fpc pop res = Fin (sqrt (real_of_int (survey_count res)))
               else fpc pop res = NaN
                  \<and> out_score_ci_fpc r = (NaN, NaN) \<and> out_percent_ci_fpc r = (NaN, NaN))"
proof (cases "pop = 0")
  case True
  from csat_calculator_no_error [OF assms(4,5), of tq res pop]
  obtain r where "csat_calculator tq res c pop = Inr r" by blast
  moreover have "fpc pop res = Fin (sqrt (real_of_int (survey_count res)))"
    using True assms(3) by (simp add: fpc_zero_population)
  ultimately show ?thesis using True by simp
next
  case False
  then have p1: "1 \<le> pop" using assms(2) by simp
  have nan: "fpc pop res = NaN" by (rule fpc_small_population [OF p1 assms(3)])
  from csat_calculator_no_error [OF assms(4,5), of tq res pop]
  obtain sci pci scif pcif where
    f: "csat_score_ci_fpc tq c pop res = Inr scif" "csat_percent_ci_fpc tq c pop res = Inr pcif"
    and r: "csat_calculator tq res c pop =
             Inr \<lparr>out_survey_count = survey_count res, out_csat_score = csat_score res,
                  out_csat_percent = csat_percent res, out_score_ci = sci,
                  out_percent_ci = pci, out_score_ci_fpc = scif, out_percent_ci_fpc = pcif\<rparr>"
    by blast
  from f fpc_nan_intervals [OF nan assms(4,5), of tq]
  have "scif = (NaN, NaN)" "pcif = (NaN, NaN)" by simp_all
  with r nan False show ?thesis by simp
qed

text \<open>Two respondents, a total of one.\<close>

theorem small_population_no_error_witness:
  "valid_counts [1, 0, 0, 0, 1] \<and> 1 < survey_count [1, 0, 0, 0, 1]
   \<and> (\<exists>r. csat_calculator student_t1_ppf [1, 0, 0, 0, 1] (4 / 5) 1 = Inr r
         \<and> fpc 1 [1, 0, 0, 0, 1] = NaN
         \<and> out_score_ci_fpc r = (NaN, NaN) \<and> out_percent_ci_fpc r = (NaN, NaN))"
proof -
  have v: "valid_counts [1, 0, 0, 0, 1]" by (simp add: valid_counts_def n_level_def)
  have n: "1 < survey_count [1, 0, 0, 0, 1]" by (simp add: survey_count_5)
  have p: "(0::int) \<le> 1" by simp
  have c: "(0::real) \<le> 4 / 5" "(4::real) / 5 \<le> 1" by simp_all
  show ?thesis
    using v n small_population_no_error [OF v p n c, of student_t1_ppf] by simp
qed

text \<open>
  Three respondents and a total of two: the run returns its output, and the corrected
  intervals are there, with NaN bounds, where C5 asks for an error.
\<close>

theorem small_population_counterexample:
  "\<not> isl (csat_calculator student_t2_ppf [1, 0, 0, 0, 2] (19 / 20) 2)
   \<and> survey_count [1, 0, 0, 0, 2] = 3
   \<and> csat_score_ci_fpc student_t2_ppf (19 / 20) 2 [1, 0, 0, 0, 2] = Inr (NaN, NaN)
   \<and> csat_percent_ci_fpc student_t2_ppf (19 / 20) 2 [1, 0, 0, 0, 2] = Inr (NaN, NaN)"
proof -
  have c: "(0::real) \<le> 19 / 20" "(19::real) / 20 \<le> 1" by simp_all
  have nan: "fpc 2 [1, 0, 0, 0, 2] = NaN"
    by (simp add: fpc_def survey_count_5 np_of_int_def)
  from csat_calculator_no_error [OF c, of student_t2_ppf "[1, 0, 0, 0, 2]" 2]
  have "\<not> isl (csat_calculator student_t2_ppf [1, 0, 0, 0, 2] (19 / 20) 2)" by auto
  then show ?thesis
    using fpc_nan_intervals [OF nan c, of student_t2_ppf] by (simp add: survey_count_5)
qed

section \<open>Ten answers of five stars\<close>

lemma all_five_stars:
  "survey_count [0, 0, 0, 0, 10] = 10" "csat_score [0, 0, 0, 0, 10] = Fin 5"
  "csat_percent [0, 0, 0, 0, 10] = Fin 1" "std_csat_percent [0, 0, 0, 0, 10] = Fin 0"
  "std_csat_score [0, 0, 0, 0, 10] = Fin 0"
proof -
  show n: "survey_count [0, 0, 0, 0, 10] = 10" by (simp add: survey_count_5)
  show s: "csat_score [0, 0, 0, 0, 10] = Fin 5" by (simp add: csat_score_5)
  show p: "csat_percent [0, 0, 0, 0, 10] = Fin 1" by (simp add: csat_percent_5)
  show "std_csat_percent [0, 0, 0, 0, 10] = Fin 0"
    using std_csat_percent_5 [OF p] by simp
  have "std_sample [0, 0, 0, 0, 10] = Fin 0"
    using std_sample_5 [OF s] by (simp add: sq_dev_5)
  from std_csat_score_5 [OF this] show "std_csat_score [0, 0, 0, 0, 10] = Fin 0" by simp
qed

text \<open>
  C9, as the script has it. For the counts [0, 0, 0, 0, 10] and a confidence level
  strictly between 0 and 1 the score is 5, the percentage is 1, the standard error of the
  percentage is exactly 0 and the run raises no error; both bounds of the percentage
  interval are NaN, because the library answers NaN for a scale that is not positive.
\<close>

theorem all_five_stars_percent_interval_nan:
  assumes "0 < c" and "c < 1"
  shows "survey_count [0, 0, 0, 0, 10] = 10
       \<and> csat_score [0, 0, 0, 0, 10] = Fin 5 \<and> csat_percent [0, 0, 0, 0, 10] = Fin 1
       \<and> std_csat_percent [0, 0, 0, 0, 10] = Fin 0
       \<and> (\<exists>r. csat_calculator tq [0, 0, 0, 0, 10] c pop = Inr r
              \<and> out_percent_ci r = (NaN, NaN))"
proof -
  have c: "0 \<le> c" "c \<le> 1" using assms by simp_all
  from csat_calculator_no_error [OF c, of tq "[0, 0, 0, 0, 10]" pop]
  obtain sci pci scif pcif where
    p: "csat_percent_ci tq c [0, 0, 0, 0, 10] = Inr pci"
    and r: "csat_calculator tq [0, 0, 0, 0, 10] c pop =
             Inr \<lparr>out_survey_count = survey_count [0, 0, 0, 0, 10],
                  out_csat_score = csat_score [0, 0, 0, 0, 10],
                  out_csat_percent = csat_percent [0, 0, 0, 0, 10], out_score_ci = sci,
                  out_percent_ci = pci, out_score_ci_fpc = scif, out_percent_ci_fpc = pcif\<rparr>"
    by blast
  have "csat_percent_ci tq c [0, 0, 0, 0, 10] = Inr (NaN, NaN)"
    by (simp add: csat_percent_ci_def all_five_stars t_interval_scale_zero [OF c])
  with p have "pci = (NaN, NaN)" by simp
  with r show ?thesis by (simp add: all_five_stars)
qed

text \<open>At the confidence level 0.8, whatever the quantile routine returns.\<close>

theorem all_five_stars_percent_interval_nan_witness:
  "(0::real) < 4 / 5 \<and> (4::real) / 5 < 1
   \<and> std_csat_percent [0, 0, 0, 0, 10] = Fin 0
   \<and> (\<forall>tq. \<exists>r. csat_calculator tq [0, 0, 0, 0, 10] (4 / 5) 20 = Inr r
              \<and> out_percent_ci r = (NaN, NaN))"
proof -
  have c: "(0::real) < 4 / 5" "(4::real) / 5 < 1" by simp_all
  show ?thesis
    using c all_five_stars_percent_interval_nan [OF c, of _ 20] by simp
qed

text \<open>
  At the confidence level 0.95 the percentage interval is (NaN, NaN), not the point
  (1, 1) of C9.
\<close>

theorem all_five_stars_counterexample:
  "\<forall>tq. csat_percent_ci tq (19 / 20) [0, 0, 0, 0, 10] = Inr (NaN, NaN)
      \<and> csat_percent_ci tq (19 / 20) [0, 0, 0, 0, 10] \<noteq> Inr (Fin 1, Fin 1)"
proof -
  have c: "(0::real) \<le> 19 / 20" "(19::real) / 20 \<le> 1" by simp_all
  show ?thesis
    by (simp add: csat_percent_ci_def all_five_stars t_interval_scale_zero [OF c])
qed

section \<open>Finite intervals and the correction factor\<close>

lemma fpc_factor:
  assumes "2 \<le> survey_count res" and "survey_count res \<le> pop"
  obtains k where "py_max (fpc pop res) default_zero = Fin k" "0 < k" "k \<le> 1"
proof -
  define r where "r = real_of_int (pop - survey_count res) / real_of_int (pop - 1)"
  have d: "0 < real_of_int (pop - 1)" using assms by simp
  have n: "0 \<le> real_of_int (pop - survey_count res)" using assms(2) by simp
  have le: "real_of_int (pop - survey_count res) \<le> real_of_int (pop - 1)"
    using assms(1) by simp
  have r0: "0 \<le> r" unfolding r_def using n d by (intro divide_nonneg_pos)
  have r1: "r \<le> 1" unfolding r_def using le d by (simp add: divide_le_eq del: of_int_diff)
  have f: "fpc pop res = Fin (sqrt r)"
    using d r0 unfolding r_def by (simp add: fpc_def np_of_int_def not_less del: of_int_diff)
  have s1: "sqrt r \<le> 1" using r1 by simp
  show thesis
  proof (cases "sqrt r < 1 / 10 ^ 8")
    case True
    then have "py_max (fpc pop res) default_zero = Fin (1 / 10 ^ 8)"
      by (simp add: f py_max_def default_zero_def)
    then show thesis by (rule that) simp_all
  next
    case False
    then have m: "py_max (fpc pop res) default_zero = Fin (sqrt r)"
      by (simp add: f py_max_def default_zero_def)
    have "(0::real) < 1 / 10 ^ 8" by simp
    with False have pos: "0 < sqrt r" by linarith
    show thesis by (rule that [OF m pos s1])
  qed
qed

lemma fpc_clamped:
  assumes "2 \<le> survey_count res"
  shows "fpc (survey_count res) res = Fin 0"
    and "py_max (fpc (survey_count res) res) default_zero = default_zero"
proof -
  have d: "real_of_int (survey_count res - 1) \<noteq> 0" using assms by simp
  show f: "fpc (survey_count res) res = Fin 0"
    using d by (simp add: fpc_def np_of_int_def del: of_int_diff)
  show "py_max (fpc (survey_count res) res) default_zero = default_zero"
    by (simp add: f py_max_def default_zero_def)
qed

lemma score_ci_fin:
  assumes "csat_score res = Fin s" and "std_csat_score res = Fin se" and "0 < se"
    and "2 \<le> survey_count res" and "0 < c" and "c < 1"
  shows "csat_score_ci tq c res =
     Inr (Fin (tq ((1 - c) / 2) (degrees_freedom res) * se + s),
          Fin (tq ((1 + c) / 2) (degrees_freedom res) * se + s))"
proof -
  have df: "0 < degrees_freedom res" using assms(4) by (simp add: degrees_freedom_def)
  show ?thesis
    unfolding csat_score_ci_def assms(1,2)
    by (rule t_interval_fin [OF df assms(3,5,6)])
qed

lemma percent_ci_fin:
  assumes "csat_percent res = Fin p" and "std_csat_percent res = Fin sp" and "0 < sp"
    and "2 \<le> survey_count res" and "0 < c" and "c < 1"
  shows "csat_percent_ci tq c res =
     Inr (Fin (tq ((1 - c) / 2) (degrees_freedom res) * sp + p),
          Fin (tq ((1 + c) / 2) (degrees_freedom res) * sp + p))"
proof -
  have df: "0 < degrees_freedom res" using assms(4) by (simp add: degrees_freedom_def)
  show ?thesis
    unfolding csat_percent_ci_def assms(1,2)
    by (rule t_interval_fin [OF df assms(3,5,6)])
qed

lemma score_ci_fpc_fin:
  assumes "csat_score res = Fin s" and "std_csat_score res = Fin se" and "0 < se"
    and "py_max (fpc pop res) default_zero = Fin k" and "0 < k"
    and "2 \<le> survey_count res" and "0 < c" and "c < 1"
  shows "csat_score_ci_fpc tq c pop res =
     Inr (Fin (tq ((1 - c) / 2) (degrees_freedom res) * (se * k) + s),
          Fin (tq ((1 + c) / 2) (degrees_freedom res) * (se * k) + s))"
proof -
  have df: "0 < degrees_freedom res" using assms(6) by (simp add: degrees_freedom_def)
  have pos: "0 < se * k" using assms(3,5) by simp
  show ?thesis
    unfolding csat_score_ci_fpc_def std_csat_score_fpc_def assms(1,2,4) np_mul.simps
    by (rule t_interval_fin [OF df pos assms(7,8)])
qed

lemma percent_ci_fpc_fin:
  assumes "csat_percent res = Fin p" and "std_csat_percent res = Fin sp" and "0 < sp"
    and "py_max (fpc pop res) default_zero = Fin k" and "0 < k"
    and "2 \<le> survey_count res" and "0 < c" and "c < 1"
  shows "csat_percent_ci_fpc tq c pop res =
     Inr (Fin (tq ((1 - c) / 2) (degrees_freedom res) * (sp * k) + p),
          Fin (tq ((1 + c) / 2) (degrees_freedom res) * (sp * k) + p))"
proof -
  have df: "0 < degrees_freedom res" using assms(6) by (simp add: degrees_freedom_def)
  have pos: "0 < sp * k" using assms(3,5) by simp
  show ?thesis
    unfolding csat_percent_ci_fpc_def std_csat_percent_fpc_def assms(1,2,4) np_mul.simps
    by (rule t_interval_fin [OF df pos assms(7,8)])
qed

section \<open>The quantile at one degree of freedom, and a survey of two\<close>

lemma student_t1_symmetric: "quantile_symmetric student_t1_ppf df"
proof -
  have "tan (pi * (1 - q - 1 / 2)) = - tan (pi * (q - 1 / 2))" for q :: real
  proof -
    have "pi * (1 - q - 1 / 2) = - (pi * (q - 1 / 2))" by (simp add: algebra_simps)
    then show ?thesis by (simp only: tan_minus)
  qed
  then show ?thesis by (simp add: quantile_symmetric_def student_t1_ppf_def)
qed

lemma student_t1_increasing: "quantile_increasing student_t1_ppf df"
proof -
  have "tan (pi * (q - 1 / 2)) < tan (pi * (q' - 1 / 2))"
    if "0 < q" "q < q'" "q' < 1" for q q' :: real
  proof (rule tan_monotone)
    have "pi * (- (1 / 2)) < pi * (q - 1 / 2)"
      using that(1) pi_gt_zero by (intro mult_strict_left_mono) simp_all
    then show "- (pi / 2) < pi * (q - 1 / 2)" by simp
    show "pi * (q - 1 / 2) < pi * (q' - 1 / 2)"
      using that(2) pi_gt_zero by (intro mult_strict_left_mono) simp_all
    have "pi * (q' - 1 / 2) < pi * (1 / 2)"
      using that(3) pi_gt_zero by (intro mult_strict_left_mono) simp_all
    then show "pi * (q' - 1 / 2) < pi / 2" by simp
  qed
  then show ?thesis by (simp add: quantile_increasing_def student_t1_ppf_def)
qed

lemma two_opposite_answers:
  "survey_count [1, 0, 0, 0, 1] = 2" "degrees_freedom [1, 0, 0, 0, 1] = 1"
  "csat_score [1, 0, 0, 0, 1] = Fin 3" "csat_percent [1, 0, 0, 0, 1] = Fin (1 / 2)"
  "std_csat_score [1, 0, 0, 0, 1] = Fin 2"
  "std_csat_percent [1, 0, 0, 0, 1] = Fin (sqrt (1 / 8))"
  "valid_counts [1, 0, 0, 0, 1]"
proof -
  show n: "survey_count [1, 0, 0, 0, 1] = 2" by (simp add: survey_count_5)
  then show "degrees_freedom [1, 0, 0, 0, 1] = 1" by (simp add: degrees_freedom_def)
  show s: "csat_score [1, 0, 0, 0, 1] = Fin 3" by (simp add: csat_score_5)
  show p: "csat_percent [1, 0, 0, 0, 1] = Fin (1 / 2)" by (simp add: csat_percent_5)
  have sd: "std_sample [1, 0, 0, 0, 1] = Fin (sqrt 8)"
    using std_sample_5 [OF s] by (simp add: sq_dev_5)
  have "sqrt 8 / sqrt 2 = sqrt (8 / 2)" by (simp only: real_sqrt_divide)
  also have "\<dots> = 2" by simp
  finally have "sqrt 8 / sqrt 2 = 2" .
  with std_csat_score_5 [OF sd] show "std_csat_score [1, 0, 0, 0, 1] = Fin 2" by simp
  show "std_csat_percent [1, 0, 0, 0, 1] = Fin (sqrt (1 / 8))"
    using std_csat_percent_5 [OF p] by simp
  show "valid_counts [1, 0, 0, 0, 1]" by (simp add: valid_counts_def n_level_def)
qed

text \<open>One answer of four stars and one of five: the percentage is 1, its standard error 0.\<close>

lemma two_top_answers:
  "survey_count [0, 0, 0, 1, 1] = 2" "degrees_freedom [0, 0, 0, 1, 1] = 1"
  "csat_score [0, 0, 0, 1, 1] = Fin (9 / 2)" "csat_percent [0, 0, 0, 1, 1] = Fin 1"
  "std_csat_score [0, 0, 0, 1, 1] = Fin (1 / 2)"
  "std_csat_percent [0, 0, 0, 1, 1] = Fin 0"
  "valid_counts [0, 0, 0, 1, 1]"
proof -
  show n: "survey_count [0, 0, 0, 1, 1] = 2" by (simp add: survey_count_5)
  then show "degrees_freedom [0, 0, 0, 1, 1] = 1" by (simp add: degrees_freedom_def)
  show s: "csat_score [0, 0, 0, 1, 1] = Fin (9 / 2)" by (simp add: csat_score_5)
  show p: "csat_percent [0, 0, 0, 1, 1] = Fin 1" by (simp add: csat_percent_5)
  have "sq_dev (9 / 2) [0, 0, 0, 1, 1] = 1 / 2" by (simp add: sq_dev_5)
  then have sd: "std_sample [0, 0, 0, 1, 1] = Fin (sqrt (1 / 2))"
    using std_sample_5 [OF s] by simp
  have "sqrt (1 / 2) / sqrt 2 = sqrt ((1 / 2) / 2)" by (simp only: real_sqrt_divide)
  also have "\<dots> = sqrt ((1 / 2)\<^sup>2)" by (simp add: power2_eq_square)
  also have "\<dots> = 1 / 2" by simp
  finally have "sqrt (1 / 2) / sqrt 2 = 1 / 2" .
  with std_csat_score_5 [OF sd] show "std_csat_score [0, 0, 0, 1, 1] = Fin (1 / 2)" by simp
  show "std_csat_percent [0, 0, 0, 1, 1] = Fin 0"
    using std_csat_percent_5 [OF p] by simp
  show "valid_counts [0, 0, 0, 1, 1]" by (simp add: valid_counts_def n_level_def)
qed

section \<open>A population equal to the sample\<close>

text \<open>
  C6, as the script has it. With at least two respondents and a total equal to the
  number of respondents, the correction factor is 0 and \<^verbatim>\<open>max\<close> replaces it by
  \<^verbatim>\<open>default_zero\<close>: it is the factor that is clamped, not the standard error, and the
  corrected standard error of either metric is its standard error times \<open>10\<^sup>-\<^sup>8\<close>. For
  each metric whose standard error is positive, so is the corrected one, and for a
  confidence level strictly between 0 and 1 and a quantile that is odd about 1/2 the
  corrected interval of that metric is finite and centred on its point estimate, with
  half-width the quantile times the corrected standard error.
\<close>

theorem population_equals_sample_clamp:
  assumes "valid_counts res" and "2 \<le> survey_count res" and "0 < c" and "c < 1"
    and "csat_score res = Fin s" and "std_csat_score res = Fin se"
    and "csat_percent res = Fin p" and "std_csat_percent res = Fin sp"
    and "quantile_symmetric tq (degrees_freedom res)"
  shows "fpc (survey_count res) res = Fin 0
       \<and> py_max (fpc (survey_count res) res) default_zero = default_zero
       \<and> std_csat_score_fpc (survey_count res) res = Fin (se / 10 ^ 8)
       \<and> std_csat_percent_fpc (survey_count res) res = Fin (sp / 10 ^ 8)
       \<and> (0 < se \<longrightarrow> 0 < se / 10 ^ 8
            \<and> csat_score_ci_fpc tq c (survey_count res) res =
                Inr (Fin (s - tq ((1 + c) / 2) (degrees_freedom res) * (se / 10 ^ 8)),
                     Fin (s + tq ((1 + c) / 2) (degrees_freedom res) * (se / 10 ^ 8))))
       \<and> (0 < sp \<longrightarrow> 0 < sp / 10 ^ 8
            \<and> csat_percent_ci_fpc tq c (survey_count res) res =
                Inr (Fin (p - tq ((1 + c) / 2) (degrees_freedom res) * (sp / 10 ^ 8)),
                     Fin (p + tq ((1 + c) / 2) (degrees_freedom res) * (sp / 10 ^ 8))))"
proof -
  note cl = fpc_clamped [OF assms(2)]
  have k: "py_max (fpc (survey_count res) res) default_zero = Fin (1 / 10 ^ 8)"
    using cl(2) by (simp add: default_zero_def)
  have kpos: "(0::real) < 1 / 10 ^ 8" by simp
  have q: "0 < (1 + c) / 2" "(1 + c) / 2 < 1" using assms(3,4) by simp_all
  have h: "(1 - c) / 2 = 1 - (1 + c) / 2" by (simp add: field_simps)
  from assms(9) q
  have "tq (1 - (1 + c) / 2) (degrees_freedom res) = - tq ((1 + c) / 2) (degrees_freedom res)"
    unfolding quantile_symmetric_def by blast
  then have sym: "tq ((1 - c) / 2) (degrees_freedom res) = - tq ((1 + c) / 2) (degrees_freedom res)"
    by (simp only: h)
  have a: "std_csat_score_fpc (survey_count res) res = Fin (se / 10 ^ 8)"
    by (simp add: std_csat_score_fpc_def assms(6) k)
  have b: "std_csat_percent_fpc (survey_count res) res = Fin (sp / 10 ^ 8)"
    by (simp add: std_csat_percent_fpc_def assms(8) k)
  have e: "0 < se / 10 ^ 8
            \<and> csat_score_ci_fpc tq c (survey_count res) res =
                Inr (Fin (s - tq ((1 + c) / 2) (degrees_freedom res) * (se / 10 ^ 8)),
                     Fin (s + tq ((1 + c) / 2) (degrees_freedom res) * (se / 10 ^ 8)))"
    if se: "0 < se"
    unfolding score_ci_fpc_fin [OF assms(5,6) se k kpos assms(2,3,4)] sym
    using se by (simp add: algebra_simps)
  have f: "0 < sp / 10 ^ 8
            \<and> csat_percent_ci_fpc tq c (survey_count res) res =
                Inr (Fin (p - tq ((1 + c) / 2) (degrees_freedom res) * (sp / 10 ^ 8)),
                     Fin (p + tq ((1 + c) / 2) (degrees_freedom res) * (sp / 10 ^ 8)))"
    if sp: "0 < sp"
    unfolding percent_ci_fpc_fin [OF assms(7,8) sp k kpos assms(2,3,4)] sym
    using sp by (simp add: algebra_simps)
  from cl a b e f show ?thesis by blast
qed

text \<open>
  At the confidence level 0.5 the quantile at 3/4 and one degree of freedom is 1. One
  answer of four stars and one of five, a total of two: the score interval is clamped,
  finite and centred although the standard error of the percentage is 0. One answer of
  one star and one of five: both intervals.
\<close>

theorem population_equals_sample_clamp_witness:
  "std_csat_score [0, 0, 0, 1, 1] = Fin (1 / 2) \<and> std_csat_percent [0, 0, 0, 1, 1] = Fin 0
   \<and> std_csat_score_fpc 2 [0, 0, 0, 1, 1] = Fin ((1 / 2) / 10 ^ 8)
   \<and> csat_score_ci_fpc student_t1_ppf (1 / 2) 2 [0, 0, 0, 1, 1] =
        Inr (Fin (9 / 2 - (1 / 2) / 10 ^ 8), Fin (9 / 2 + (1 / 2) / 10 ^ 8))
   \<and> std_csat_score_fpc 2 [1, 0, 0, 0, 1] = Fin (2 / 10 ^ 8)
   \<and> std_csat_percent_fpc 2 [1, 0, 0, 0, 1] = Fin (sqrt (1 / 8) / 10 ^ 8)
   \<and> csat_score_ci_fpc student_t1_ppf (1 / 2) 2 [1, 0, 0, 0, 1] =
        Inr (Fin (3 - 2 / 10 ^ 8), Fin (3 + 2 / 10 ^ 8))
   \<and> csat_percent_ci_fpc student_t1_ppf (1 / 2) 2 [1, 0, 0, 0, 1] =
        Inr (Fin (1 / 2 - sqrt (1 / 8) / 10 ^ 8), Fin (1 / 2 + sqrt (1 / 8) / 10 ^ 8))"
proof -
  note t = two_opposite_answers and u = two_top_answers
  have n: "2 \<le> survey_count [1, 0, 0, 0, 1]" by (simp add: t)
  have m: "2 \<le> survey_count [0, 0, 0, 1, 1]" by (simp add: u)
  have c: "(0::real) < 1 / 2" "(1::real) / 2 < 1" by simp_all
  have sp: "0 < sqrt (1 / 8 :: real)" by simp
  have q: "student_t1_ppf ((1 + 1 / 2) / 2) 1 = 1"
    by (simp add: student_t1_ppf_def tan_45)
  have a: "std_csat_score_fpc 2 [0, 0, 0, 1, 1] = Fin ((1 / 2) / 10 ^ 8)
     \<and> csat_score_ci_fpc student_t1_ppf (1 / 2) 2 [0, 0, 0, 1, 1] =
        Inr (Fin (9 / 2 - (1 / 2) / 10 ^ 8), Fin (9 / 2 + (1 / 2) / 10 ^ 8))"
    using population_equals_sample_clamp
      [OF u(7) m c u(3) u(5) u(4) u(6) student_t1_symmetric]
    unfolding u q by simp
  have b: "std_csat_score_fpc 2 [1, 0, 0, 0, 1] = Fin (2 / 10 ^ 8)
     \<and> std_csat_percent_fpc 2 [1, 0, 0, 0, 1] = Fin (sqrt (1 / 8) / 10 ^ 8)
     \<and> csat_score_ci_fpc student_t1_ppf (1 / 2) 2 [1, 0, 0, 0, 1] =
        Inr (Fin (3 - 2 / 10 ^ 8), Fin (3 + 2 / 10 ^ 8))
     \<and> csat_percent_ci_fpc student_t1_ppf (1 / 2) 2 [1, 0, 0, 0, 1] =
        Inr (Fin (1 / 2 - sqrt (1 / 8) / 10 ^ 8), Fin (1 / 2 + sqrt (1 / 8) / 10 ^ 8))"
    using sp population_equals_sample_clamp
      [OF t(7) n c t(3) t(5) t(4) t(6) student_t1_symmetric]
    unfolding t q by simp
  from a b u(5,6) show ?thesis by blast
qed

text \<open>
  Ten answers of five stars and a total of ten: both standard errors are 0, so the
  corrected standard errors are 0 as well, not a positive epsilon, and the bounds of both
  corrected intervals are NaN.
\<close>

theorem population_equals_sample_counterexample:
  "std_csat_score_fpc 10 [0, 0, 0, 0, 10] = Fin 0
   \<and> std_csat_percent_fpc 10 [0, 0, 0, 0, 10] = Fin 0
   \<and> (\<forall>tq. csat_score_ci_fpc tq (19 / 20) 10 [0, 0, 0, 0, 10] = Inr (NaN, NaN)
          \<and> csat_percent_ci_fpc tq (19 / 20) 10 [0, 0, 0, 0, 10] = Inr (NaN, NaN))"
proof -
  have c: "(0::real) \<le> 19 / 20" "(19::real) / 20 \<le> 1" by simp_all
  have n: "2 \<le> survey_count [0, 0, 0, 0, 10]" by (simp add: all_five_stars)
  from fpc_clamped(2) [OF n]
  have k: "py_max (fpc 10 [0, 0, 0, 0, 10]) default_zero = Fin (1 / 10 ^ 8)"
    by (simp add: all_five_stars default_zero_def)
  have a: "std_csat_score_fpc 10 [0, 0, 0, 0, 10] = Fin 0"
    by (simp add: std_csat_score_fpc_def all_five_stars k)
  have b: "std_csat_percent_fpc 10 [0, 0, 0, 0, 10] = Fin 0"
    by (simp add: std_csat_percent_fpc_def all_five_stars k)
  show ?thesis
    by (simp add: a b csat_score_ci_fpc_def csat_percent_ci_fpc_def
          t_interval_scale_zero [OF c])
qed

section \<open>Widths\<close>

lemma fpc_fin:
  assumes "2 \<le> survey_count res" and "survey_count res \<le> pop"
  shows "fpc pop res =
           Fin (sqrt (real_of_int (pop - survey_count res) / real_of_int (pop - 1)))"
    and "sqrt (real_of_int (pop - survey_count res) / real_of_int (pop - 1)) \<le> 1"
proof -
  have d: "0 < real_of_int (pop - 1)" using assms by simp
  have n: "0 \<le> real_of_int (pop - survey_count res)" using assms(2) by simp
  have le: "real_of_int (pop - survey_count res) \<le> real_of_int (pop - 1)"
    using assms(1) by simp
  have r0: "0 \<le> real_of_int (pop - survey_count res) / real_of_int (pop - 1)"
    using n d by (intro divide_nonneg_pos)
  have r1: "real_of_int (pop - survey_count res) / real_of_int (pop - 1) \<le> 1"
    using le d by (simp add: divide_le_eq del: of_int_diff)
  show "fpc pop res =
           Fin (sqrt (real_of_int (pop - survey_count res) / real_of_int (pop - 1)))"
    using d r0 by (simp add: fpc_def np_of_int_def not_less del: of_int_diff)
  show "sqrt (real_of_int (pop - survey_count res) / real_of_int (pop - 1)) \<le> 1"
    using r1 by simp
qed

lemma quantile_gap_pos:
  assumes "quantile_increasing tq df" and "0 < c" and "c < 1"
  shows "0 < tq ((1 + c) / 2) df - tq ((1 - c) / 2) df"
proof -
  have "0 < (1 - c) / 2" "(1 - c) / 2 < (1 + c) / 2" "(1 + c) / 2 < 1"
    using assms(2,3) by simp_all
  with assms(1) have "tq ((1 - c) / 2) df < tq ((1 + c) / 2) df"
    unfolding quantile_increasing_def by blast
  then show ?thesis by simp
qed

lemma quantile_gap_mono:
  assumes "quantile_increasing tq df" and "0 < c1" and "c1 < c2" and "c2 < 1"
  shows "tq ((1 + c1) / 2) df - tq ((1 - c1) / 2) df
       < tq ((1 + c2) / 2) df - tq ((1 - c2) / 2) df"
proof -
  have "0 < (1 - c2) / 2" "(1 - c2) / 2 < (1 - c1) / 2" "(1 - c1) / 2 < 1"
    using assms(2-4) by simp_all
  with assms(1) have lo: "tq ((1 - c2) / 2) df < tq ((1 - c1) / 2) df"
    unfolding quantile_increasing_def by blast
  have "0 < (1 + c1) / 2" "(1 + c1) / 2 < (1 + c2) / 2" "(1 + c2) / 2 < 1"
    using assms(2-4) by simp_all
  with assms(1) have hi: "tq ((1 + c1) / 2) df < tq ((1 + c2) / 2) df"
    unfolding quantile_increasing_def by blast
  from lo hi show ?thesis by simp
qed

lemma width_interval: "width (Fin (a * x + m), Fin (b * x + m)) = Fin ((b - a) * x)"
  by (simp add: width_def np_sub_def algebra_simps)

section \<open>A population larger than the sample\<close>

text \<open>
  C8, as the script has it. With at least two respondents, a total strictly above the
  number of respondents, a confidence level strictly between 0 and 1 and a quantile that
  grows with the probability, the correction factor is the square root of
  \<open>(total - N) / (total - 1)\<close>, which is at most 1, and for each metric whose standard
  error is positive both intervals of that metric are finite and the corrected one is at
  most as wide as the uncorrected one.
\<close>

theorem fpc_interval_not_wider:
  assumes "valid_counts res" and "2 \<le> survey_count res" and "survey_count res < pop"
    and "0 < c" and "c < 1"
    and "csat_score res = Fin s" and "std_csat_score res = Fin se"
    and "csat_percent res = Fin p" and "std_csat_percent res = Fin sp"
    and "quantile_increasing tq (degrees_freedom res)"
  shows "fpc pop res =
           Fin (sqrt (real_of_int (pop - survey_count res) / real_of_int (pop - 1)))
       \<and> sqrt (real_of_int (pop - survey_count res) / real_of_int (pop - 1)) \<le> 1
       \<and> (0 < se \<longrightarrow>
            (\<exists>ci cif. csat_score_ci tq c res = Inr ci
              \<and> csat_score_ci_fpc tq c pop res = Inr cif
              \<and> np_le (width cif) (width ci)))
       \<and> (0 < sp \<longrightarrow>
            (\<exists>ci cif. csat_percent_ci tq c res = Inr ci
              \<and> csat_percent_ci_fpc tq c pop res = Inr cif
              \<and> np_le (width cif) (width ci)))"
proof -
  have le: "survey_count res \<le> pop" using assms(3) by simp
  note f = fpc_fin [OF assms(2) le]
  from fpc_factor [OF assms(2) le] obtain k where
    k: "py_max (fpc pop res) default_zero = Fin k" and k0: "0 < k" and k1: "k \<le> 1"
    by blast
  define g where "g = tq ((1 + c) / 2) (degrees_freedom res) - tq ((1 - c) / 2) (degrees_freedom res)"
  have g: "0 < g" unfolding g_def by (rule quantile_gap_pos [OF assms(10,4,5)])
  have a: "\<exists>ci cif. csat_score_ci tq c res = Inr ci
              \<and> csat_score_ci_fpc tq c pop res = Inr cif
              \<and> np_le (width cif) (width ci)" if se: "0 < se"
  proof -
    have "g * (se * k) \<le> g * se"
      using g se k1 by (intro mult_left_mono) simp_all
    then show ?thesis
      unfolding score_ci_fin [OF assms(6,7) se assms(2,4,5)]
        score_ci_fpc_fin [OF assms(6,7) se k k0 assms(2,4,5)]
      by (simp add: width_interval g_def)
  qed
  have b: "\<exists>ci cif. csat_percent_ci tq c res = Inr ci
              \<and> csat_percent_ci_fpc tq c pop res = Inr cif
              \<and> np_le (width cif) (width ci)" if sp: "0 < sp"
  proof -
    have "g * (sp * k) \<le> g * sp"
      using g sp k1 by (intro mult_left_mono) simp_all
    then show ?thesis
      unfolding percent_ci_fin [OF assms(8,9) sp assms(2,4,5)]
        percent_ci_fpc_fin [OF assms(8,9) sp k k0 assms(2,4,5)]
      by (simp add: width_interval g_def)
  qed
  from f a b show ?thesis by blast
qed

text \<open>
  A total of three and the confidence level 0.5. One answer of four stars and one of
  five: the score intervals, although the standard error of the percentage is 0. One
  answer of one star and one of five: the intervals of both metrics.
\<close>

theorem fpc_interval_not_wider_witness:
  "std_csat_score [0, 0, 0, 1, 1] = Fin (1 / 2) \<and> std_csat_percent [0, 0, 0, 1, 1] = Fin 0
   \<and> fpc 3 [0, 0, 0, 1, 1] = Fin (sqrt (1 / 2))
   \<and> (\<exists>ci cif. csat_score_ci student_t1_ppf (1 / 2) [0, 0, 0, 1, 1] = Inr ci
          \<and> csat_score_ci_fpc student_t1_ppf (1 / 2) 3 [0, 0, 0, 1, 1] = Inr cif
          \<and> np_le (width cif) (width ci))
   \<and> (\<exists>ci cif. csat_score_ci student_t1_ppf (1 / 2) [1, 0, 0, 0, 1] = Inr ci
          \<and> csat_score_ci_fpc student_t1_ppf (1 / 2) 3 [1, 0, 0, 0, 1] = Inr cif
          \<and> np_le (width cif) (width ci))
   \<and> (\<exists>ci cif. csat_percent_ci student_t1_ppf (1 / 2) [1, 0, 0, 0, 1] = Inr ci
          \<and> csat_percent_ci_fpc student_t1_ppf (1 / 2) 3 [1, 0, 0, 0, 1] = Inr cif
          \<and> np_le (width cif) (width ci))"
proof -
  note t = two_opposite_answers and u = two_top_answers
  have n: "2 \<le> survey_count [1, 0, 0, 0, 1]" "survey_count [1, 0, 0, 0, 1] < 3"
    by (simp_all add: t)
  have m: "2 \<le> survey_count [0, 0, 0, 1, 1]" "survey_count [0, 0, 0, 1, 1] < 3"
    by (simp_all add: u)
  have c: "(0::real) < 1 / 2" "(1::real) / 2 < 1" by simp_all
  have sp: "0 < sqrt (1 / 8 :: real)" by simp
  have a: "fpc 3 [0, 0, 0, 1, 1] = Fin (sqrt (1 / 2))
     \<and> (\<exists>ci cif. csat_score_ci student_t1_ppf (1 / 2) [0, 0, 0, 1, 1] = Inr ci
          \<and> csat_score_ci_fpc student_t1_ppf (1 / 2) 3 [0, 0, 0, 1, 1] = Inr cif
          \<and> np_le (width cif) (width ci))"
    using fpc_interval_not_wider
      [OF u(7) m c u(3) u(5) u(4) u(6) student_t1_increasing]
    unfolding u by simp
  have b: "(\<exists>ci cif. csat_score_ci student_t1_ppf (1 / 2) [1, 0, 0, 0, 1] = Inr ci
          \<and> csat_score_ci_fpc student_t1_ppf (1 / 2) 3 [1, 0, 0, 0, 1] = Inr cif
          \<and> np_le (width cif) (width ci))
   \<and> (\<exists>ci cif. csat_percent_ci student_t1_ppf (1 / 2) [1, 0, 0, 0, 1] = Inr ci
          \<and> csat_percent_ci_fpc student_t1_ppf (1 / 2) 3 [1, 0, 0, 0, 1] = Inr cif
          \<and> np_le (width cif) (width ci))"
    using sp fpc_interval_not_wider
      [OF t(7) n c t(3) t(5) t(4) t(6) student_t1_increasing]
    unfolding t by simp
  from a b u(5,6) show ?thesis by blast
qed

text \<open>
  Ten answers of five stars and a total of twenty: the standard error of the percentage
  is 0, the bounds of the percentage interval are NaN with and without the correction,
  and no comparison of the widths holds.
\<close>

theorem fpc_interval_not_wider_counterexample:
  "valid_counts [0, 0, 0, 0, 10] \<and> survey_count [0, 0, 0, 0, 10] < 20
   \<and> (\<forall>tq. csat_percent_ci tq (19 / 20) [0, 0, 0, 0, 10] = Inr (NaN, NaN)
          \<and> csat_percent_ci_fpc tq (19 / 20) 20 [0, 0, 0, 0, 10] = Inr (NaN, NaN))
   \<and> \<not> np_le (width (NaN, NaN)) (width (NaN, NaN))"
proof -
  have c: "(0::real) \<le> 19 / 20" "(19::real) / 20 \<le> 1" by simp_all
  have n: "2 \<le> survey_count [0, 0, 0, 0, 10]" "survey_count [0, 0, 0, 0, 10] \<le> 20"
    by (simp_all add: all_five_stars)
  from fpc_factor [OF n] obtain k where
    k: "py_max (fpc 20 [0, 0, 0, 0, 10]) default_zero = Fin k" by blast
  have b: "std_csat_percent_fpc 20 [0, 0, 0, 0, 10] = Fin 0"
    by (simp add: std_csat_percent_fpc_def all_five_stars k)
  show ?thesis
    by (simp add: b csat_percent_ci_def csat_percent_ci_fpc_def all_five_stars
          t_interval_scale_zero [OF c] valid_counts_def n_level_def width_def np_sub_def)
qed

section \<open>A higher confidence level\<close>

lemma wider_width:
  assumes "b1 - a1 < b2 - a2" and "0 < x"
  shows "np_less (width (Fin (a1 * x + m), Fin (b1 * x + m)))
                 (width (Fin (a2 * x + m), Fin (b2 * x + m)))"
proof -
  have "(b1 - a1) * x < (b2 - a2) * x" using assms by (intro mult_strict_right_mono)
  then show ?thesis by (simp only: width_interval np_less.simps)
qed

text \<open>
  C7, as the script has it. With at least two respondents, a total of at least the
  number of respondents, two confidence levels \<open>0 < c1 < c2 < 1\<close> and a quantile that
  grows with the probability, for each metric whose standard error is positive the
  interval of that metric, with and without the correction, is finite at both levels and
  strictly wider at \<open>c2\<close> than at \<open>c1\<close>, also when the correction factor is clamped to
  \<^verbatim>\<open>default_zero\<close>.
\<close>

theorem higher_confidence_wider:
  assumes "valid_counts res" and "2 \<le> survey_count res" and "survey_count res \<le> pop"
    and "0 < c1" and "c1 < c2" and "c2 < 1"
    and "csat_score res = Fin s" and "std_csat_score res = Fin se"
    and "csat_percent res = Fin p" and "std_csat_percent res = Fin sp"
    and "quantile_increasing tq (degrees_freedom res)"
  shows "(0 < se \<longrightarrow>
            (\<exists>ci1 ci2. csat_score_ci tq c1 res = Inr ci1 \<and> csat_score_ci tq c2 res = Inr ci2
               \<and> np_less (width ci1) (width ci2))
          \<and> (\<exists>ci1 ci2. csat_score_ci_fpc tq c1 pop res = Inr ci1
               \<and> csat_score_ci_fpc tq c2 pop res = Inr ci2
               \<and> np_less (width ci1) (width ci2)))
       \<and> (0 < sp \<longrightarrow>
            (\<exists>ci1 ci2. csat_percent_ci tq c1 res = Inr ci1 \<and> csat_percent_ci tq c2 res = Inr ci2
               \<and> np_less (width ci1) (width ci2))
          \<and> (\<exists>ci1 ci2. csat_percent_ci_fpc tq c1 pop res = Inr ci1
               \<and> csat_percent_ci_fpc tq c2 pop res = Inr ci2
               \<and> np_less (width ci1) (width ci2)))"
proof -
  have c1: "0 < c1" "c1 < 1" and c2: "0 < c2" "c2 < 1" using assms(4-6) by simp_all
  from fpc_factor [OF assms(2,3)] obtain k where
    k: "py_max (fpc pop res) default_zero = Fin k" and k0: "0 < k" by blast
  note g = quantile_gap_mono [OF assms(11,4,5,6)]
  have a: "(\<exists>ci1 ci2. csat_score_ci tq c1 res = Inr ci1 \<and> csat_score_ci tq c2 res = Inr ci2
               \<and> np_less (width ci1) (width ci2))
          \<and> (\<exists>ci1 ci2. csat_score_ci_fpc tq c1 pop res = Inr ci1
               \<and> csat_score_ci_fpc tq c2 pop res = Inr ci2
               \<and> np_less (width ci1) (width ci2))" if se: "0 < se"
  proof -
    have sek: "0 < se * k" using se k0 by simp
    show ?thesis
      unfolding score_ci_fin [OF assms(7,8) se assms(2) c1]
        score_ci_fin [OF assms(7,8) se assms(2) c2]
        score_ci_fpc_fin [OF assms(7,8) se k k0 assms(2) c1]
        score_ci_fpc_fin [OF assms(7,8) se k k0 assms(2) c2]
      by (simp add: wider_width [OF g se] wider_width [OF g sek])
  qed
  have b: "(\<exists>ci1 ci2. csat_percent_ci tq c1 res = Inr ci1 \<and> csat_percent_ci tq c2 res = Inr ci2
               \<and> np_less (width ci1) (width ci2))
          \<and> (\<exists>ci1 ci2. csat_percent_ci_fpc tq c1 pop res = Inr ci1
               \<and> csat_percent_ci_fpc tq c2 pop res = Inr ci2
               \<and> np_less (width ci1) (width ci2))" if sp: "0 < sp"
  proof -
    have spk: "0 < sp * k" using sp k0 by simp
    show ?thesis
      unfolding percent_ci_fin [OF assms(9,10) sp assms(2) c1]
        percent_ci_fin [OF assms(9,10) sp assms(2) c2]
        percent_ci_fpc_fin [OF assms(9,10) sp k k0 assms(2) c1]
        percent_ci_fpc_fin [OF assms(9,10) sp k k0 assms(2) c2]
      by (simp add: wider_width [OF g sp] wider_width [OF g spk])
  qed
  from a b show ?thesis by blast
qed

text \<open>
  A total of two (the clamped factor), the confidence levels 0.8 and 0.99. One answer of
  four stars and one of five: the score intervals, although the standard error of the
  percentage is 0. One answer of one star and one of five: the intervals of both metrics.
\<close>

theorem higher_confidence_wider_witness:
  "std_csat_score [0, 0, 0, 1, 1] = Fin (1 / 2) \<and> std_csat_percent [0, 0, 0, 1, 1] = Fin 0
   \<and> (\<exists>ci1 ci2. csat_score_ci student_t1_ppf (4 / 5) [0, 0, 0, 1, 1] = Inr ci1
        \<and> csat_score_ci student_t1_ppf (99 / 100) [0, 0, 0, 1, 1] = Inr ci2
        \<and> np_less (width ci1) (width ci2))
   \<and> (\<exists>ci1 ci2. csat_score_ci_fpc student_t1_ppf (4 / 5) 2 [0, 0, 0, 1, 1] = Inr ci1
        \<and> csat_score_ci_fpc student_t1_ppf (99 / 100) 2 [0, 0, 0, 1, 1] = Inr ci2
        \<and> np_less (width ci1) (width ci2))
   \<and> (\<exists>ci1 ci2. csat_score_ci student_t1_ppf (4 / 5) [1, 0, 0, 0, 1] = Inr ci1
        \<and> csat_score_ci student_t1_ppf (99 / 100) [1, 0, 0, 0, 1] = Inr ci2
        \<and> np_less (width ci1) (width ci2))
   \<and> (\<exists>ci1 ci2. csat_percent_ci student_t1_ppf (4 / 5) [1, 0, 0, 0, 1] = Inr ci1
        \<and> csat_percent_ci student_t1_ppf (99 / 100) [1, 0, 0, 0, 1] = Inr ci2
        \<and> np_less (width ci1) (width ci2))
   \<and> (\<exists>ci1 ci2. csat_percent_ci_fpc student_t1_ppf (4 / 5) 2 [1, 0, 0, 0, 1] = Inr ci1
        \<and> csat_percent_ci_fpc student_t1_ppf (99 / 100) 2 [1, 0, 0, 0, 1] = Inr ci2
        \<and> np_less (width ci1) (width ci2))"
proof -
  note t = two_opposite_answers and u = two_top_answers
  have n: "2 \<le> survey_count [1, 0, 0, 0, 1]" "survey_count [1, 0, 0, 0, 1] \<le> 2"
    by (simp_all add: t)
  have m: "2 \<le> survey_count [0, 0, 0, 1, 1]" "survey_count [0, 0, 0, 1, 1] \<le> 2"
    by (simp_all add: u)
  have c: "(0::real) < 4 / 5" "(4::real) / 5 < 99 / 100" "(99::real) / 100 < 1" by simp_all
  have sp: "0 < sqrt (1 / 8 :: real)" by simp
  have a: "(\<exists>ci1 ci2. csat_score_ci student_t1_ppf (4 / 5) [0, 0, 0, 1, 1] = Inr ci1
        \<and> csat_score_ci student_t1_ppf (99 / 100) [0, 0, 0, 1, 1] = Inr ci2
        \<and> np_less (width ci1) (width ci2))
   \<and> (\<exists>ci1 ci2. csat_score_ci_fpc student_t1_ppf (4 / 5) 2 [0, 0, 0, 1, 1] = Inr ci1
        \<and> csat_score_ci_fpc student_t1_ppf (99 / 100) 2 [0, 0, 0, 1, 1] = Inr ci2
        \<and> np_less (width ci1) (width ci2))"
    using higher_confidence_wider
      [OF u(7) m c u(3) u(5) u(4) u(6) student_t1_increasing]
    by simp
  have b: "(\<exists>ci1 ci2. csat_score_ci student_t1_ppf (4 / 5) [1, 0, 0, 0, 1] = Inr ci1
        \<and> csat_score_ci student_t1_ppf (99 / 100) [1, 0, 0, 0, 1] = Inr ci2
        \<and> np_less (width ci1) (width ci2))
   \<and> (\<exists>ci1 ci2. csat_percent_ci student_t1_ppf (4 / 5) [1, 0, 0, 0, 1] = Inr ci1
        \<and> csat_percent_ci student_t1_ppf (99 / 100) [1, 0, 0, 0, 1] = Inr ci2
        \<and> np_less (width ci1) (width ci2))
   \<and> (\<exists>ci1 ci2. csat_percent_ci_fpc student_t1_ppf (4 / 5) 2 [1, 0, 0, 0, 1] = Inr ci1
        \<and> csat_percent_ci_fpc student_t1_ppf (99 / 100) 2 [1, 0, 0, 0, 1] = Inr ci2
        \<and> np_less (width ci1) (width ci2))"
    using sp higher_confidence_wider
      [OF t(7) n c t(3) t(5) t(4) t(6) student_t1_increasing]
    by simp
  from a b u(5,6) show ?thesis by blast
qed

text \<open>
  Ten answers of five stars and a total of twenty, the confidence levels 0.8 and 0.99:
  the factor is not clamped, the standard error of the score is 0, the bounds of the
  score interval are NaN at both levels, with and without the correction, and the width
  NaN is not below itself.
\<close>

theorem higher_confidence_wider_counterexample:
  "valid_counts [0, 0, 0, 0, 10] \<and> survey_count [0, 0, 0, 0, 10] = 10
   \<and> py_max (fpc 20 [0, 0, 0, 0, 10]) default_zero = fpc 20 [0, 0, 0, 0, 10]
   \<and> (\<forall>tq. csat_score_ci tq (4 / 5) [0, 0, 0, 0, 10] = Inr (NaN, NaN)
          \<and> csat_score_ci tq (99 / 100) [0, 0, 0, 0, 10] = Inr (NaN, NaN)
          \<and> csat_score_ci_fpc tq (4 / 5) 20 [0, 0, 0, 0, 10] = Inr (NaN, NaN)
          \<and> csat_score_ci_fpc tq (99 / 100) 20 [0, 0, 0, 0, 10] = Inr (NaN, NaN))
   \<and> \<not> np_less (width (NaN, NaN)) (width (NaN, NaN))
   \<and> width (NaN, NaN) = NaN"
proof -
  have c1: "(0::real) \<le> 4 / 5" "(4::real) / 5 \<le> 1" by simp_all
  have c2: "(0::real) \<le> 99 / 100" "(99::real) / 100 \<le> 1" by simp_all
  have n: "2 \<le> survey_count [0, 0, 0, 0, 10]" "survey_count [0, 0, 0, 0, 10] \<le> 20"
    by (simp_all add: all_five_stars)
  have f: "fpc 20 [0, 0, 0, 0, 10] = Fin (sqrt (10 / 19))"
    using fpc_fin(1) [OF n] by (simp add: all_five_stars)
  have "sqrt (1 / 4) \<le> sqrt (10 / 19 :: real)" by (intro real_sqrt_le_mono) simp
  then have "(1::real) / 2 \<le> sqrt (10 / 19)" by (simp add: real_sqrt_divide)
  moreover have "(1::real) / 10 ^ 8 < 1 / 2" by simp
  ultimately have "\<not> sqrt (10 / 19 :: real) < 1 / 10 ^ 8" by linarith
  then have k: "py_max (fpc 20 [0, 0, 0, 0, 10]) default_zero = Fin (sqrt (10 / 19))"
    by (simp add: f py_max_def default_zero_def)
  have a: "std_csat_score_fpc 20 [0, 0, 0, 0, 10] = Fin 0"
    by (simp add: std_csat_score_fpc_def all_five_stars k)
  have kk: "py_max (fpc 20 [0, 0, 0, 0, 10]) default_zero = fpc 20 [0, 0, 0, 0, 10]"
    by (rule trans [OF k f [symmetric]])
  have r: "\<forall>tq. csat_score_ci tq (4 / 5) [0, 0, 0, 0, 10] = Inr (NaN, NaN)
          \<and> csat_score_ci tq (99 / 100) [0, 0, 0, 0, 10] = Inr (NaN, NaN)
          \<and> csat_score_ci_fpc tq (4 / 5) 20 [0, 0, 0, 0, 10] = Inr (NaN, NaN)
          \<and> csat_score_ci_fpc tq (99 / 100) 20 [0, 0, 0, 0, 10] = Inr (NaN, NaN)"
    by (simp add: a csat_score_ci_def csat_score_ci_fpc_def all_five_stars
          t_interval_scale_zero [OF c1] t_interval_scale_zero [OF c2])
  have v: "valid_counts [0, 0, 0, 0, 10]" by (simp add: valid_counts_def n_level_def)
  have w: "width (NaN, NaN) = NaN" by (simp add: width_def np_sub_def)
  from v kk r w show ?thesis by (simp add: all_five_stars)
qed

section \<open>Bounds of the percentage interval outside [0, 1]\<close>

lemma three_answers_top:
  "valid_counts [0, 0, 1, 1, 1]" "survey_count [0, 0, 1, 1, 1] = 3"
  "csat_percent [0, 0, 1, 1, 1] = Fin (2 / 3)"
  "std_csat_percent [0, 0, 1, 1, 1] = Fin (sqrt (2 / 27))"
proof -
  show "valid_counts [0, 0, 1, 1, 1]" by (simp add: valid_counts_def n_level_def)
  show "survey_count [0, 0, 1, 1, 1] = 3" by (simp add: survey_count_5)
  show p: "csat_percent [0, 0, 1, 1, 1] = Fin (2 / 3)" by (simp add: csat_percent_5)
  show "std_csat_percent [0, 0, 1, 1, 1] = Fin (sqrt (2 / 27))"
    using std_csat_percent_5 [OF p] by simp
qed

lemma three_answers_bottom:
  "valid_counts [1, 1, 0, 0, 1]" "survey_count [1, 1, 0, 0, 1] = 3"
  "csat_percent [1, 1, 0, 0, 1] = Fin (1 / 3)"
  "std_csat_percent [1, 1, 0, 0, 1] = Fin (sqrt (2 / 27))"
proof -
  show "valid_counts [1, 1, 0, 0, 1]" by (simp add: valid_counts_def n_level_def)
  show "survey_count [1, 1, 0, 0, 1] = 3" by (simp add: survey_count_5)
  show p: "csat_percent [1, 1, 0, 0, 1] = Fin (1 / 3)" by (simp add: csat_percent_5)
  show "std_csat_percent [1, 1, 0, 0, 1] = Fin (sqrt (2 / 27))"
    using std_csat_percent_5 [OF p] by simp
qed

lemma sqrt_product_third: "sqrt (3 / 2) * sqrt (2 / 27) = (1 / 3 :: real)"
proof -
  have "sqrt (3 / 2) * sqrt (2 / 27) = sqrt ((3 / 2) * (2 / 27) :: real)"
    by (simp only: real_sqrt_mult)
  also have "\<dots> = sqrt ((1 / 3)\<^sup>2)" by (simp add: power2_eq_square)
  also have "\<dots> = 1 / 3" by simp
  finally show ?thesis .
qed

text \<open>
  C10. The bounds of the percentage interval are not clamped to [0, 1]. At the
  confidence level 0.95 the counts [0, 0, 1, 1, 1] (three respondents, a percentage of
  2/3, a standard error of \<open>sqrt (2/27)\<close>, about 0.272) give an upper bound above 1, and
  the counts [1, 1, 0, 0, 1] (a percentage of 1/3) give a lower bound below 0, as soon as
  the library's quantile at two degrees of freedom is above \<open>sqrt (3/2)\<close>, about 1.22,
  for the probability 0.975 and below \<open>- sqrt (3/2)\<close> for 0.025. Student's quantile is
  about 4.30 there.
\<close>

theorem percent_interval_outside_unit:
  assumes "sqrt (3 / 2) < tq (39 / 40) 2" and "tq (1 / 40) 2 < - sqrt (3 / 2)"
  shows "valid_counts [0, 0, 1, 1, 1] \<and> survey_count [0, 0, 1, 1, 1] = 3
       \<and> csat_percent [0, 0, 1, 1, 1] = Fin (2 / 3)
       \<and> (\<exists>lo hi. csat_percent_ci tq (19 / 20) [0, 0, 1, 1, 1] = Inr (Fin lo, Fin hi)
             \<and> 1 < hi)
       \<and> valid_counts [1, 1, 0, 0, 1] \<and> survey_count [1, 1, 0, 0, 1] = 3
       \<and> csat_percent [1, 1, 0, 0, 1] = Fin (1 / 3)
       \<and> (\<exists>lo hi. csat_percent_ci tq (19 / 20) [1, 1, 0, 0, 1] = Inr (Fin lo, Fin hi)
             \<and> lo < 0)"
proof -
  note t = three_answers_top and b = three_answers_bottom
  have c: "(0::real) < 19 / 20" "(19::real) / 20 < 1" by simp_all
  have sp: "0 < sqrt (2 / 27 :: real)" by simp
  have nt: "2 \<le> survey_count [0, 0, 1, 1, 1]" by (simp add: t)
  have nb: "2 \<le> survey_count [1, 1, 0, 0, 1]" by (simp add: b)
  have dt: "degrees_freedom [0, 0, 1, 1, 1] = 2" by (simp add: degrees_freedom_def t)
  have db: "degrees_freedom [1, 1, 0, 0, 1] = 2" by (simp add: degrees_freedom_def b)
  have q: "(1 + 19 / 20) / 2 = (39 / 40 :: real)" "(1 - 19 / 20) / 2 = (1 / 40 :: real)"
    by simp_all
  have "sqrt (3 / 2) * sqrt (2 / 27) < tq (39 / 40) 2 * sqrt (2 / 27)"
    using assms(1) sp by (intro mult_strict_right_mono)
  then have hi: "1 < tq (39 / 40) 2 * sqrt (2 / 27) + 2 / 3"
    unfolding sqrt_product_third by simp
  have "tq (1 / 40) 2 * sqrt (2 / 27) < - sqrt (3 / 2) * sqrt (2 / 27)"
    using assms(2) sp by (intro mult_strict_right_mono)
  then have lo: "tq (1 / 40) 2 * sqrt (2 / 27) + 1 / 3 < 0"
    using sqrt_product_third by simp
  have top: "\<exists>lo hi. csat_percent_ci tq (19 / 20) [0, 0, 1, 1, 1] = Inr (Fin lo, Fin hi)
             \<and> 1 < hi"
    unfolding percent_ci_fin [OF t(3) t(4) sp nt c] dt q using hi by simp
  have bot: "\<exists>lo hi. csat_percent_ci tq (19 / 20) [1, 1, 0, 0, 1] = Inr (Fin lo, Fin hi)
             \<and> lo < 0"
    unfolding percent_ci_fin [OF b(3) b(4) sp nb c] db q using lo by simp
  from t(1-3) b(1-3) top bot show ?thesis by blast
qed

text \<open>
  Student's quantile at two degrees of freedom in closed form: \<open>0.95 / sqrt 0.04875\<close>
  at 0.975, and its negative at 0.025.
\<close>

lemma student_t2_values:
  "sqrt (3 / 2) < student_t2_ppf (39 / 40) 2" "student_t2_ppf (1 / 40) 2 < - sqrt (3 / 2)"
proof -
  have pos: "0 < sqrt (39 / 800 :: real)" by simp
  have "sqrt (3 / 2) * sqrt (39 / 800) = sqrt ((3 / 2) * (39 / 800) :: real)"
    by (simp only: real_sqrt_mult)
  also have "\<dots> < sqrt ((19 / 20)\<^sup>2)"
    by (intro real_sqrt_less_mono) (simp add: power2_eq_square)
  also have "\<dots> = 19 / 20" by simp
  finally have m: "sqrt (3 / 2) * sqrt (39 / 800) < (19 / 20 :: real)" .
  then have d: "sqrt (3 / 2) < (19 / 20) / sqrt (39 / 800 :: real)"
    using pos by (simp only: pos_less_divide_eq)
  have a: "student_t2_ppf (39 / 40) 2 = (19 / 20) / sqrt (39 / 800)"
    by (simp add: student_t2_ppf_def)
  have b: "student_t2_ppf (1 / 40) 2 = - ((19 / 20) / sqrt (39 / 800))"
    by (simp add: student_t2_ppf_def)
  show "sqrt (3 / 2) < student_t2_ppf (39 / 40) 2" unfolding a by (rule d)
  show "student_t2_ppf (1 / 40) 2 < - sqrt (3 / 2)" unfolding b using d by simp
qed

theorem percent_interval_outside_unit_witness:
  "(\<exists>lo hi. csat_percent_ci student_t2_ppf (19 / 20) [0, 0, 1, 1, 1] = Inr (Fin lo, Fin hi)
       \<and> 1 < hi)
   \<and> (\<exists>lo hi. csat_percent_ci student_t2_ppf (19 / 20) [1, 1, 0, 0, 1] = Inr (Fin lo, Fin hi)
       \<and> lo < 0)"
  using percent_interval_outside_unit [of student_t2_ppf, OF student_t2_values] by blast

section \<open>Polynomial bounds of the arc tangent, and of \<open>\<pi>\<close>\<close>






section \<open>Student's distribution function at nine degrees of freedom\<close>

lemma nine_plus_sq_pos: "0 < 9 + (t::real)\<^sup>2"
  by (metis add_pos_nonneg zero_le_power2 zero_less_numeral)

lemma piece1_deriv:
  "DERIV (\<lambda>t::real. t / (9 + t\<^sup>2) ^ 1) t
     :> 1 / (9 + t\<^sup>2) ^ 1 - 2 * t\<^sup>2 / (9 + t\<^sup>2) ^ 2"
proof -
  have u: "9 + t\<^sup>2 \<noteq> 0" using nine_plus_sq_pos [of t] by simp
  have "DERIV (\<lambda>t::real. t / (9 + t\<^sup>2) ^ 1) t
     :> (1 * (9 + t\<^sup>2) ^ 1 - t * (1 * (9 + t\<^sup>2) ^ 0 * (2 * t)))
        / ((9 + t\<^sup>2) ^ 1 * (9 + t\<^sup>2) ^ 1)"
    using u by (auto intro!: derivative_eq_intros)
  moreover have "(1 * (9 + t\<^sup>2) ^ 1 - t * (1 * (9 + t\<^sup>2) ^ 0 * (2 * t)))
        / ((9 + t\<^sup>2) ^ 1 * (9 + t\<^sup>2) ^ 1)
      = 1 / (9 + t\<^sup>2) ^ 1 - 2 * t\<^sup>2 / (9 + t\<^sup>2) ^ 2"
  proof -
    define v where "v = 9 + t\<^sup>2"
    have v: "v \<noteq> 0" using u by (simp add: v_def)
    have "(1 * v ^ 1 - t * (1 * v ^ 0 * (2 * t))) / (v ^ 1 * v ^ 1)
        = 1 / v ^ 1 - 2 * t\<^sup>2 / v ^ 2"
      using v by (simp add: field_simps power2_eq_square eval_nat_numeral)
    then show ?thesis by (simp only: v_def)
  qed
  ultimately show ?thesis by simp
qed

lemma piece2_deriv:
  "DERIV (\<lambda>t::real. t / (9 + t\<^sup>2) ^ 2) t
     :> 1 / (9 + t\<^sup>2) ^ 2 - 4 * t\<^sup>2 / (9 + t\<^sup>2) ^ 3"
proof -
  have u: "9 + t\<^sup>2 \<noteq> 0" using nine_plus_sq_pos [of t] by simp
  have "DERIV (\<lambda>t::real. t / (9 + t\<^sup>2) ^ 2) t
     :> (1 * (9 + t\<^sup>2) ^ 2 - t * (2 * (9 + t\<^sup>2) ^ 1 * (2 * t)))
        / ((9 + t\<^sup>2) ^ 2 * (9 + t\<^sup>2) ^ 2)"
    using u by (auto intro!: derivative_eq_intros)
  moreover have "(1 * (9 + t\<^sup>2) ^ 2 - t * (2 * (9 + t\<^sup>2) ^ 1 * (2 * t)))
        / ((9 + t\<^sup>2) ^ 2 * (9 + t\<^sup>2) ^ 2)
      = 1 / (9 + t\<^sup>2) ^ 2 - 4 * t\<^sup>2 / (9 + t\<^sup>2) ^ 3"
  proof -
    define v where "v = 9 + t\<^sup>2"
    have v: "v \<noteq> 0" using u by (simp add: v_def)
    have "(1 * v ^ 2 - t * (2 * v ^ 1 * (2 * t))) / (v ^ 2 * v ^ 2)
        = 1 / v ^ 2 - 4 * t\<^sup>2 / v ^ 3"
      using v by (simp add: field_simps power2_eq_square eval_nat_numeral)
    then show ?thesis by (simp only: v_def)
  qed
  ultimately show ?thesis by simp
qed

lemma piece3_deriv:
  "DERIV (\<lambda>t::real. t / (9 + t\<^sup>2) ^ 3) t
     :> 1 / (9 + t\<^sup>2) ^ 3 - 6 * t\<^sup>2 / (9 + t\<^sup>2) ^ 4"
proof -
  have u: "9 + t\<^sup>2 \<noteq> 0" using nine_plus_sq_pos [of t] by simp
  have "DERIV (\<lambda>t::real. t / (9 + t\<^sup>2) ^ 3) t
     :> (1 * (9 + t\<^sup>2) ^ 3 - t * (3 * (9 + t\<^sup>2) ^ 2 * (2 * t)))
        / ((9 + t\<^sup>2) ^ 3 * (9 + t\<^sup>2) ^ 3)"
    using u by (auto intro!: derivative_eq_intros)
  moreover have "(1 * (9 + t\<^sup>2) ^ 3 - t * (3 * (9 + t\<^sup>2) ^ 2 * (2 * t)))
        / ((9 + t\<^sup>2) ^ 3 * (9 + t\<^sup>2) ^ 3)
      = 1 / (9 + t\<^sup>2) ^ 3 - 6 * t\<^sup>2 / (9 + t\<^sup>2) ^ 4"
  proof -
    define v where "v = 9 + t\<^sup>2"
    have v: "v \<noteq> 0" using u by (simp add: v_def)
    have "(1 * v ^ 3 - t * (3 * v ^ 2 * (2 * t))) / (v ^ 3 * v ^ 3)
        = 1 / v ^ 3 - 6 * t\<^sup>2 / v ^ 4"
      using v by (simp add: field_simps power2_eq_square eval_nat_numeral)
    then show ?thesis by (simp only: v_def)
  qed
  ultimately show ?thesis by simp
qed

lemma piece4_deriv:
  "DERIV (\<lambda>t::real. t / (9 + t\<^sup>2) ^ 4) t
     :> 1 / (9 + t\<^sup>2) ^ 4 - 8 * t\<^sup>2 / (9 + t\<^sup>2) ^ 5"
proof -
  have u: "9 + t\<^sup>2 \<noteq> 0" using nine_plus_sq_pos [of t] by simp
  have "DERIV (\<lambda>t::real. t / (9 + t\<^sup>2) ^ 4) t
     :> (1 * (9 + t\<^sup>2) ^ 4 - t * (4 * (9 + t\<^sup>2) ^ 3 * (2 * t)))
        / ((9 + t\<^sup>2) ^ 4 * (9 + t\<^sup>2) ^ 4)"
    using u by (auto intro!: derivative_eq_intros)
  moreover have "(1 * (9 + t\<^sup>2) ^ 4 - t * (4 * (9 + t\<^sup>2) ^ 3 * (2 * t)))
        / ((9 + t\<^sup>2) ^ 4 * (9 + t\<^sup>2) ^ 4)
      = 1 / (9 + t\<^sup>2) ^ 4 - 8 * t\<^sup>2 / (9 + t\<^sup>2) ^ 5"
  proof -
    define v where "v = 9 + t\<^sup>2"
    have v: "v \<noteq> 0" using u by (simp add: v_def)
    have "(1 * v ^ 4 - t * (4 * v ^ 3 * (2 * t))) / (v ^ 4 * v ^ 4)
        = 1 / v ^ 4 - 8 * t\<^sup>2 / v ^ 5"
      using v by (simp add: field_simps power2_eq_square eval_nat_numeral)
    then show ?thesis by (simp only: v_def)
  qed
  ultimately show ?thesis by simp
qed

lemma arctan_third_deriv: "DERIV (\<lambda>t::real. arctan (t / 3)) t :> 3 / (9 + t\<^sup>2)"
proof -
  have u: "9 + t\<^sup>2 \<noteq> 0" using nine_plus_sq_pos [of t] by simp
  have e: "3 / (9 + t\<^sup>2) = inverse (1 + (t / 3)\<^sup>2) * (1 / 3)"
    using u by (simp add: field_simps power2_eq_square)
  show ?thesis
    unfolding e by (rule derivative_eq_intros refl | simp)+
qed

lemma student_t9_cdf_pieces:
  "student_t9_cdf =
     (\<lambda>t. 1 / 2 + (arctan (t / 3)
              + 3 * (t / (9 + t\<^sup>2) ^ 1 + 6 * (t / (9 + t\<^sup>2) ^ 2) + (216 / 5) * (t / (9 + t\<^sup>2) ^ 3)
                     + (11664 / 35) * (t / (9 + t\<^sup>2) ^ 4))) / pi)"
  by (rule ext) (simp add: student_t9_cdf_def algebra_simps)

lemma student_t9_cdf_deriv:
  "DERIV student_t9_cdf t :> (2519424 / 35) / (9 + t\<^sup>2) ^ 5 / pi"
proof -
  have u: "9 + t\<^sup>2 \<noteq> 0" using nine_plus_sq_pos [of t] by simp
  have d: "DERIV student_t9_cdf t :>
      (3 / (9 + t\<^sup>2)
       + 3 * ((1 / (9 + t\<^sup>2) ^ 1 - 2 * t\<^sup>2 / (9 + t\<^sup>2) ^ 2)
              + 6 * (1 / (9 + t\<^sup>2) ^ 2 - 4 * t\<^sup>2 / (9 + t\<^sup>2) ^ 3)
              + (216 / 5) * (1 / (9 + t\<^sup>2) ^ 3 - 6 * t\<^sup>2 / (9 + t\<^sup>2) ^ 4)
              + (11664 / 35) * (1 / (9 + t\<^sup>2) ^ 4 - 8 * t\<^sup>2 / (9 + t\<^sup>2) ^ 5))) / pi"
  proof -
    have p: "DERIV (\<lambda>t::real. t / (9 + t\<^sup>2) ^ 1 + 6 * (t / (9 + t\<^sup>2) ^ 2)
                 + (216 / 5) * (t / (9 + t\<^sup>2) ^ 3) + (11664 / 35) * (t / (9 + t\<^sup>2) ^ 4)) t
        :> (1 / (9 + t\<^sup>2) ^ 1 - 2 * t\<^sup>2 / (9 + t\<^sup>2) ^ 2)
              + 6 * (1 / (9 + t\<^sup>2) ^ 2 - 4 * t\<^sup>2 / (9 + t\<^sup>2) ^ 3)
              + (216 / 5) * (1 / (9 + t\<^sup>2) ^ 3 - 6 * t\<^sup>2 / (9 + t\<^sup>2) ^ 4)
              + (11664 / 35) * (1 / (9 + t\<^sup>2) ^ 4 - 8 * t\<^sup>2 / (9 + t\<^sup>2) ^ 5)"
      by (intro DERIV_add DERIV_cmult piece1_deriv piece2_deriv piece3_deriv piece4_deriv)
    have "DERIV (\<lambda>t::real. 1 / 2 + (arctan (t / 3)
              + 3 * (t / (9 + t\<^sup>2) ^ 1 + 6 * (t / (9 + t\<^sup>2) ^ 2)
                     + (216 / 5) * (t / (9 + t\<^sup>2) ^ 3)
                     + (11664 / 35) * (t / (9 + t\<^sup>2) ^ 4))) / pi) t
        :> 0 + (3 / (9 + t\<^sup>2)
       + 3 * ((1 / (9 + t\<^sup>2) ^ 1 - 2 * t\<^sup>2 / (9 + t\<^sup>2) ^ 2)
              + 6 * (1 / (9 + t\<^sup>2) ^ 2 - 4 * t\<^sup>2 / (9 + t\<^sup>2) ^ 3)
              + (216 / 5) * (1 / (9 + t\<^sup>2) ^ 3 - 6 * t\<^sup>2 / (9 + t\<^sup>2) ^ 4)
              + (11664 / 35) * (1 / (9 + t\<^sup>2) ^ 4 - 8 * t\<^sup>2 / (9 + t\<^sup>2) ^ 5))) / pi"
      by (intro DERIV_add DERIV_const DERIV_cdivide DERIV_cmult arctan_third_deriv p)
    then show ?thesis
      unfolding student_t9_cdf_pieces by (simp only: add_0_left)
  qed
  define v where "v = 9 + t\<^sup>2"
  have v: "v \<noteq> 0" using u by (simp add: v_def)
  have "3 / v + 3 * ((1 / v ^ 1 - 2 * (v - 9) / v ^ 2)
              + 6 * (1 / v ^ 2 - 4 * (v - 9) / v ^ 3)
              + (216 / 5) * (1 / v ^ 3 - 6 * (v - 9) / v ^ 4)
              + (11664 / 35) * (1 / v ^ 4 - 8 * (v - 9) / v ^ 5))
        = (2519424 / 35) / v ^ 5"
    using v by (simp add: field_simps eval_nat_numeral)
  then have "3 / (9 + t\<^sup>2)
       + 3 * ((1 / (9 + t\<^sup>2) ^ 1 - 2 * t\<^sup>2 / (9 + t\<^sup>2) ^ 2)
              + 6 * (1 / (9 + t\<^sup>2) ^ 2 - 4 * t\<^sup>2 / (9 + t\<^sup>2) ^ 3)
              + (216 / 5) * (1 / (9 + t\<^sup>2) ^ 3 - 6 * t\<^sup>2 / (9 + t\<^sup>2) ^ 4)
              + (11664 / 35) * (1 / (9 + t\<^sup>2) ^ 4 - 8 * t\<^sup>2 / (9 + t\<^sup>2) ^ 5))
        = (2519424 / 35) / (9 + t\<^sup>2) ^ 5"
    unfolding v_def by (simp only: add_diff_cancel_left')
  with d show ?thesis by simp
qed


lemma student_t9_cdf_zero: "student_t9_cdf 0 = 1 / 2"
  by (simp add: student_t9_cdf_def)

lemma student_t9_cdf_minus: "student_t9_cdf (- t) = 1 - student_t9_cdf t"
  by (simp add: student_t9_cdf_def arctan_minus field_simps)

lemma student_t9_density:
  "DERIV student_t9_cdf t :> 128 / (105 * pi) * (1 + t\<^sup>2 / 9) powr (- 5)"
proof -
  have p: "0 < 1 + t\<^sup>2 / 9" by (metis add_pos_nonneg divide_nonneg_pos zero_le_power2 zero_less_numeral zero_less_one)
  have "(1 + t\<^sup>2 / 9) powr (- 5) = 1 / (1 + t\<^sup>2 / 9) ^ 5"
    using p by (simp add: powr_minus powr_numeral inverse_eq_divide)
  also have "\<dots> = 59049 / (9 + t\<^sup>2) ^ 5"
  proof -
    have "1 + t\<^sup>2 / 9 = (9 + t\<^sup>2) / 9" by simp
    then show ?thesis by (simp only: power_divide) simp
  qed
  finally have "128 / (105 * pi) * (1 + t\<^sup>2 / 9) powr (- 5)
      = (2519424 / 35) / (9 + t\<^sup>2) ^ 5 / pi"
    by simp
  then show ?thesis using student_t9_cdf_deriv [of t] by simp
qed

lemma tail_term_bound:
  fixes t :: real
  assumes "1 \<le> t"
  shows "0 \<le> 3 * t * (1 / (9 + t\<^sup>2) + 6 / (9 + t\<^sup>2) ^ 2 + (216 / 5) / (9 + t\<^sup>2) ^ 3
                        + (11664 / 35) / (9 + t\<^sup>2) ^ 4)"
    and "3 * t * (1 / (9 + t\<^sup>2) + 6 / (9 + t\<^sup>2) ^ 2 + (216 / 5) / (9 + t\<^sup>2) ^ 3
                        + (11664 / 35) / (9 + t\<^sup>2) ^ 4) \<le> 8 * inverse t"
proof -
  define v where "v = 9 + t\<^sup>2"
  have t: "0 < t" using assms by simp
  have v9: "9 \<le> v" by (simp add: v_def)
  then have v0: "0 < v" by simp
  have vt: "t\<^sup>2 \<le> v" by (simp add: v_def)
  have t2: "0 < t\<^sup>2" using t by simp
  have k1: "1 / v \<le> 1 / t\<^sup>2" using vt t2 by (simp add: frac_le)
  have p2: "9 * t\<^sup>2 \<le> v ^ 2"
    unfolding power2_eq_square [of v] using v9 vt v0 t2 by (intro mult_mono) simp_all
  have p3: "81 * t\<^sup>2 \<le> v ^ 3"
  proof -
    have "9 * (9 * t\<^sup>2) \<le> v * v ^ 2" using v9 p2 v0 t2 by (intro mult_mono) simp_all
    then show ?thesis by (simp add: power3_eq_cube power2_eq_square)
  qed
  have p4: "729 * t\<^sup>2 \<le> v ^ 4"
  proof -
    have "9 * (81 * t\<^sup>2) \<le> v * v ^ 3" using v9 p3 v0 t2 by (intro mult_mono) simp_all
    then show ?thesis by (simp add: eval_nat_numeral)
  qed
  have k2: "6 / v ^ 2 \<le> 6 / (9 * t\<^sup>2)" using p2 t2 by (intro frac_le) simp_all
  have k3: "(216 / 5) / v ^ 3 \<le> (216 / 5) / (81 * t\<^sup>2)"
    using p3 t2 by (intro frac_le) simp_all
  have k4: "(11664 / 35) / v ^ 4 \<le> (11664 / 35) / (729 * t\<^sup>2)"
    using p4 t2 by (intro frac_le) simp_all
  have nn: "0 \<le> 1 / v + 6 / v ^ 2 + (216 / 5) / v ^ 3 + (11664 / 35) / v ^ 4"
    using v0 by (intro add_nonneg_nonneg) simp_all
  show "0 \<le> 3 * t * (1 / (9 + t\<^sup>2) + 6 / (9 + t\<^sup>2) ^ 2 + (216 / 5) / (9 + t\<^sup>2) ^ 3
                        + (11664 / 35) / (9 + t\<^sup>2) ^ 4)"
    using nn t unfolding v_def by (intro mult_nonneg_nonneg) simp_all
  have "1 / v + 6 / v ^ 2 + (216 / 5) / v ^ 3 + (11664 / 35) / v ^ 4
          \<le> 1 / t\<^sup>2 + 6 / (9 * t\<^sup>2) + (216 / 5) / (81 * t\<^sup>2) + (11664 / 35) / (729 * t\<^sup>2)"
    using k1 k2 k3 k4 by linarith
  also have "\<dots> = (279 / 105) / t\<^sup>2" using t by (simp add: field_simps)
  finally have "3 * t * (1 / v + 6 / v ^ 2 + (216 / 5) / v ^ 3 + (11664 / 35) / v ^ 4)
          \<le> 3 * t * ((279 / 105) / t\<^sup>2)"
    using t by (intro mult_left_mono) simp_all
  also have "\<dots> = (279 / 35) * inverse t" using t by (simp add: field_simps power2_eq_square)
  also have "\<dots> \<le> 8 * inverse t" using t by (intro mult_right_mono) simp_all
  finally show "3 * t * (1 / (9 + t\<^sup>2) + 6 / (9 + t\<^sup>2) ^ 2 + (216 / 5) / (9 + t\<^sup>2) ^ 3
                        + (11664 / 35) / (9 + t\<^sup>2) ^ 4) \<le> 8 * inverse t"
    unfolding v_def .
qed

lemma student_t9_cdf_at_top: "(student_t9_cdf \<longlongrightarrow> 1) at_top"
proof -
  have "LIM t at_top. (1 / 3) * (t::real) :> at_top"
    by (rule filterlim_tendsto_pos_mult_at_top [OF tendsto_const _ filterlim_ident]) simp
  then have "LIM t at_top. (t::real) / 3 :> at_top" by simp
  then have a: "((\<lambda>t::real. arctan (t / 3)) \<longlongrightarrow> pi / 2) at_top"
    by (rule filterlim_compose [OF tendsto_arctan_at_top])
  have z: "((\<lambda>t::real. 8 * inverse t) \<longlongrightarrow> 8 * 0) at_top"
    by (intro tendsto_mult tendsto_const tendsto_inverse_0_at_top filterlim_ident)
  have g: "((\<lambda>t::real. 3 * t * (1 / (9 + t\<^sup>2) + 6 / (9 + t\<^sup>2) ^ 2 + (216 / 5) / (9 + t\<^sup>2) ^ 3
                        + (11664 / 35) / (9 + t\<^sup>2) ^ 4)) \<longlongrightarrow> 0) at_top"
  proof (rule tendsto_sandwich [OF _ _ tendsto_const])
    show "\<forall>\<^sub>F t::real in at_top. 0 \<le> 3 * t * (1 / (9 + t\<^sup>2) + 6 / (9 + t\<^sup>2) ^ 2
              + (216 / 5) / (9 + t\<^sup>2) ^ 3 + (11664 / 35) / (9 + t\<^sup>2) ^ 4)"
      using eventually_ge_at_top [of "1::real"]
      by eventually_elim (rule tail_term_bound(1))
    show "\<forall>\<^sub>F t::real in at_top. 3 * t * (1 / (9 + t\<^sup>2) + 6 / (9 + t\<^sup>2) ^ 2
              + (216 / 5) / (9 + t\<^sup>2) ^ 3 + (11664 / 35) / (9 + t\<^sup>2) ^ 4) \<le> 8 * inverse t"
      using eventually_ge_at_top [of "1::real"]
      by eventually_elim (rule tail_term_bound(2))
    show "((\<lambda>t::real. 8 * inverse t) \<longlongrightarrow> 0) at_top" using z by simp
  qed
  have "((\<lambda>t::real. 1 / 2 + (arctan (t / 3)
              + 3 * t * (1 / (9 + t\<^sup>2) + 6 / (9 + t\<^sup>2) ^ 2 + (216 / 5) / (9 + t\<^sup>2) ^ 3
                         + (11664 / 35) / (9 + t\<^sup>2) ^ 4)) / pi) \<longlongrightarrow> 1 / 2 + (pi / 2 + 0) / pi)
          at_top"
    by (intro tendsto_add tendsto_divide tendsto_const a g) simp
  then show ?thesis by (simp add: student_t9_cdf_def [abs_def])
qed









section \<open>The multiplier of the interval\<close>








end
